theory Spec2Isabelle
  imports Main "HOL-Library.Multiset"
begin

section \<open>Python values\<close>

text \<open>
  The problem classes of \<^verbatim>\<open>inginious/common/tasks_problems.py\<close> work on untyped data: a
  problem is built from a content descriptor (a string-keyed dict loaded from a task file)
  and grades a submitted-input dict. The values that occur are modelled by one datatype.
  A dict is an association list in insertion order (Python dicts keep it); lookups go
  through \<open>map_of\<close>. Floating-point values are not part of the model.

  A \<open>string\<close> is a list of 8-bit characters, read as the code points 0..255 of a Python
  \<^verbatim>\<open>str\<close>; the whitespace and digit tests below are Python's, restricted to that range.
\<close>

datatype pyval =
    PNone
  | PBool bool
  | PInt int
  | PStr string
  | PList "pyval list"
  | PDict "(string \<times> pyval) list"

type_synonym pydict = "(string \<times> pyval) list"

text \<open>Every exception the modelled code can raise, explicitly or from a built-in.\<close>

datatype exn =
    Exception string
  | TypeError
  | ValueError
  | KeyError
  | AttributeError

text \<open>\<^verbatim>\<open>k in d\<close> and \<^verbatim>\<open>d.get(k, default)\<close> on a dict.\<close>

definition dict_has :: "pydict \<Rightarrow> string \<Rightarrow> bool" where
  "dict_has d k = (case map_of d k of None \<Rightarrow> False | Some _ \<Rightarrow> True)"

definition dict_get :: "pydict \<Rightarrow> string \<Rightarrow> pyval \<Rightarrow> pyval" where
  "dict_get d k dflt = (case map_of d k of None \<Rightarrow> dflt | Some v \<Rightarrow> v)"

text \<open>Truth value of an object, as \<^verbatim>\<open>if x:\<close> and \<^verbatim>\<open>not x\<close> test it.\<close>

fun truthy :: "pyval \<Rightarrow> bool" where
  "truthy PNone = False"
| "truthy (PBool b) = b"
| "truthy (PInt n) = (n \<noteq> 0)"
| "truthy (PStr s) = (s \<noteq> [])"
| "truthy (PList xs) = (xs \<noteq> [])"
| "truthy (PDict d) = (d \<noteq> [])"

text \<open>
  \<^verbatim>\<open>isinstance(v, int)\<close>: \<^verbatim>\<open>bool\<close> is a subclass of \<^verbatim>\<open>int\<close>, and \<^verbatim>\<open>True\<close>, \<^verbatim>\<open>False\<close>
  compare as 1 and 0.
\<close>

fun isinstance_int :: "pyval \<Rightarrow> bool" where
  "isinstance_int (PInt n) = True"
| "isinstance_int (PBool b) = True"
| "isinstance_int v = False"

fun int_value :: "pyval \<Rightarrow> int" where
  "int_value (PInt n) = n"
| "int_value (PBool b) = (if b then 1 else 0)"
| "int_value v = 0"

subsection \<open>Strings\<close>

text \<open>
  \<^verbatim>\<open>str.strip()\<close> removes the characters for which \<^verbatim>\<open>str.isspace\<close> holds: 9 to 13, 28 to 32,
  133 and 160 in the modelled range.
\<close>

definition py_isspace :: "char \<Rightarrow> bool" where
  "py_isspace c = ((of_char c :: nat) \<in> {9, 10, 11, 12, 13, 28, 29, 30, 31, 32, 133, 160})"

definition strip :: "string \<Rightarrow> string" where
  "strip s = rev (dropWhile py_isspace (rev (dropWhile py_isspace s)))"

text \<open>Substring test, \<^verbatim>\<open>s in t\<close> on two strings.\<close>

fun startswith :: "string \<Rightarrow> string \<Rightarrow> bool" where
  "startswith [] t = True"
| "startswith (x # xs) [] = False"
| "startswith (x # xs) (y # ys) = (x = y \<and> startswith xs ys)"

fun str_contains :: "string \<Rightarrow> string \<Rightarrow> bool" where
  "str_contains s [] = (s = [])"
| "str_contains s (y # ys) = (startswith s (y # ys) \<or> str_contains s ys)"

text \<open>\<^verbatim>\<open>str(n)\<close> on an integer: decimal digits, a minus sign for a negative number.\<close>

definition digit_char :: "nat \<Rightarrow> char" where
  "digit_char d = char_of (48 + d)"

fun str_nat :: "nat \<Rightarrow> string" where
  "str_nat n = (if n < 10 then [digit_char n] else str_nat (n div 10) @ [digit_char (n mod 10)])"

declare str_nat.simps [simp del]

definition str_int :: "int \<Rightarrow> string" where
  "str_int i = (if i < 0 then CHR ''-'' # str_nat (nat (- i)) else str_nat (nat i))"

text \<open>
  \<^verbatim>\<open>int(s)\<close> on a string: surrounding whitespace (9 to 13, 32, 133, 160: the separators 28 to 31
  are not skipped here) is dropped, then an optional sign, then decimal digits in which single
  underscores may separate digits. Anything else is a \<^verbatim>\<open>ValueError\<close>. The bound that
  recent interpreters put on the number of digits is not modelled.
\<close>

definition int_isspace :: "char \<Rightarrow> bool" where
  "int_isspace c = ((of_char c :: nat) \<in> {9, 10, 11, 12, 13, 32, 133, 160})"

definition is_digit :: "char \<Rightarrow> bool" where
  "is_digit c = (48 \<le> (of_char c :: nat) \<and> (of_char c :: nat) \<le> 57)"

definition digit_val :: "char \<Rightarrow> int" where
  "digit_val c = int (of_char c - 48)"

fun digits_ok :: "string \<Rightarrow> bool" where
  "digits_ok [] = False"
| "digits_ok [c] = is_digit c"
| "digits_ok (c # d # cs) =
     (is_digit c \<and> (if d = CHR ''_'' then digits_ok cs else digits_ok (d # cs)))"

definition digits_value :: "string \<Rightarrow> int" where
  "digits_value s = foldl (\<lambda>a c. 10 * a + digit_val c) 0 (filter is_digit s)"

definition int_of_str :: "string \<Rightarrow> exn + int" where
  "int_of_str s =
     (case rev (dropWhile int_isspace (rev (dropWhile int_isspace s))) of
        [] \<Rightarrow> Inl ValueError
      | c # cs \<Rightarrow>
          (let body = (if c = CHR ''-'' \<or> c = CHR ''+'' then cs else c # cs)
           in if digits_ok body
              then Inr (if c = CHR ''-'' then - digits_value body else digits_value body)
              else Inl ValueError))"

text \<open>\<^verbatim>\<open>int(v)\<close> on any value: only numbers and strings convert, the rest is a \<^verbatim>\<open>TypeError\<close>.\<close>

fun py_int :: "pyval \<Rightarrow> exn + int" where
  "py_int (PInt n) = Inr n"
| "py_int (PBool b) = Inr (if b then 1 else 0)"
| "py_int (PStr s) = int_of_str s"
| "py_int v = Inl TypeError"

text \<open>
  \<^verbatim>\<open>str(v)\<close>. The text of a list or a dict is Python's \<^verbatim>\<open>repr\<close> of the container, which is
  taken as a parameter.
\<close>

fun py_str :: "(pyval \<Rightarrow> string) \<Rightarrow> pyval \<Rightarrow> string" where
  "py_str repr PNone = ''None''"
| "py_str repr (PBool b) = (if b then ''True'' else ''False'')"
| "py_str repr (PInt n) = str_int n"
| "py_str repr (PStr s) = s"
| "py_str repr v = repr v"

subsection \<open>Membership and subscripting\<close>

text \<open>
  \<^verbatim>\<open>n in x\<close> for an integer \<open>n\<close>: a list is searched with \<^verbatim>\<open>==\<close> (an integer equals an
  integer or a bool of the same value and nothing else), a string-keyed dict never holds it,
  a string refuses a non-string left operand, and the other values are not iterable.
\<close>

fun eq_int :: "int \<Rightarrow> pyval \<Rightarrow> bool" where
  "eq_int n (PInt m) = (n = m)"
| "eq_int n (PBool b) = (n = (if b then 1 else 0))"
| "eq_int n v = False"

fun contains_int :: "int \<Rightarrow> pyval \<Rightarrow> exn + bool" where
  "contains_int n (PList xs) = Inr (list_ex (eq_int n) xs)"
| "contains_int n (PDict d) = Inr False"
| "contains_int n v = Inl TypeError"

text \<open>\<^verbatim>\<open>s in x\<close> for a string \<open>s\<close>: element of a list, key of a dict, substring of a string.\<close>

fun contains_str :: "string \<Rightarrow> pyval \<Rightarrow> exn + bool" where
  "contains_str s (PList xs) = Inr (PStr s \<in> set xs)"
| "contains_str s (PDict d) = Inr (dict_has d s)"
| "contains_str s (PStr t) = Inr (str_contains s t)"
| "contains_str s v = Inl TypeError"

text \<open>\<^verbatim>\<open>x[k]\<close> with a string key: only a dict can be subscripted so.\<close>

fun getitem_str :: "pyval \<Rightarrow> string \<Rightarrow> exn + pyval" where
  "getitem_str (PDict d) k = (case map_of d k of None \<Rightarrow> Inl KeyError | Some v \<Rightarrow> Inr v)"
| "getitem_str v k = Inl TypeError"

text \<open>\<^verbatim>\<open>for i in x\<close>: the elements of a list, the keys of a dict, the characters of a string.\<close>

fun iter :: "pyval \<Rightarrow> exn + pyval list" where
  "iter (PList xs) = Inr xs"
| "iter (PDict d) = Inr (map (\<lambda>kv. PStr (fst kv)) d)"
| "iter (PStr s) = Inr (map (\<lambda>c. PStr [c]) s)"
| "iter v = Inl TypeError"

section \<open>BasicProblem\<close>

text \<open>
  Collaborators that are not part of the module: the owning task, of which the problems only
  read the grading environment (\<^verbatim>\<open>task.get_environment()\<close>); the identifier check
  \<^verbatim>\<open>id_checker\<close>, passed to every constructor as the parameter \<open>idc\<close>; and the translations,
  a dict from a language to a translation object, given by the \<^verbatim>\<open>gettext\<close> function of each
  language that has one.
\<close>

record Task =
  environment :: "string option"

type_synonym translations_dict = "string \<Rightarrow> (pyval \<Rightarrow> pyval) option"

record basic_problem =
  translations' :: translations_dict
  id' :: string
  task :: Task
  name :: pyval
  header :: pyval
  original_content :: pydict

definition BasicProblem_init ::
  "(string \<Rightarrow> bool) \<Rightarrow> Task \<Rightarrow> string \<Rightarrow> pydict \<Rightarrow> translations_dict \<Rightarrow> exn + basic_problem" where
  "BasicProblem_init idc tsk problemid content translations =
     (if \<not> idc problemid then Inl (Exception (''Invalid problem _id: '' @ problemid))
      else Inr \<lparr> translations' = translations,
                 id' = problemid,
                 task = tsk,
                 name = (if dict_has content ''name'' then dict_get content ''name'' PNone else PStr ''''),
                 header = (if dict_has content ''header'' then dict_get content ''header'' PNone else PStr ''''),
                 original_content = content \<rparr>)"

definition get_id :: "'a basic_problem_scheme \<Rightarrow> string" where
  "get_id self = id' self"

text \<open>\<^verbatim>\<open>dict(self._original_content)\<close>: a copy with the same items.\<close>

definition get_original_content :: "'a basic_problem_scheme \<Rightarrow> pydict" where
  "get_original_content self = original_content self"

text \<open>
  \<^verbatim>\<open>gettext\<close>: the translation of the requested language, or \<^verbatim>\<open>NullTranslations\<close>, which
  returns the message unchanged.
\<close>

definition gettext :: "'a basic_problem_scheme \<Rightarrow> string \<Rightarrow> pyval \<Rightarrow> pyval" where
  "gettext self language msg =
     (case translations' self language of None \<Rightarrow> msg | Some translation \<Rightarrow> translation msg)"

text \<open>
  The result of \<^verbatim>\<open>check_answer\<close>: \<^verbatim>\<open>True\<close>, \<^verbatim>\<open>False\<close> or \<^verbatim>\<open>None\<close> (left to the grader); the
  unused task message; the list of feedback messages or \<^verbatim>\<open>None\<close>; the number of errors.
\<close>

type_synonym answer_result = "bool option \<times> pyval \<times> pyval list option \<times> int"

section \<open>MatchProblem\<close>

record match_problem = basic_problem +
  answer :: string

definition MatchProblem_init ::
  "(string \<Rightarrow> bool) \<Rightarrow> (pyval \<Rightarrow> string) \<Rightarrow> Task \<Rightarrow> string \<Rightarrow> pydict \<Rightarrow> translations_dict
     \<Rightarrow> exn + match_problem" where
  "MatchProblem_init idc repr tsk problemid content translations =
     (case BasicProblem_init idc tsk problemid content translations of
        Inl e \<Rightarrow> Inl e
      | Inr b \<Rightarrow>
          if \<not> dict_has content ''answer''
          then Inl (Exception ''There is no answer in this problem with type==match'')
          else Inr (basic_problem.extend b
                 (match_problem.fields (py_str repr (dict_get content ''answer'' PNone)))))"

definition MatchProblem_input_is_consistent :: "match_problem \<Rightarrow> pydict \<Rightarrow> exn + bool" where
  "MatchProblem_input_is_consistent self task_input = Inr (dict_has task_input (get_id self))"

text \<open>
  \<^verbatim>\<open>task_input[self.get_id()].strip()\<close>: a missing key is a \<^verbatim>\<open>KeyError\<close>, and only a string
  has \<^verbatim>\<open>strip\<close>.
\<close>

definition MatchProblem_check_answer :: "match_problem \<Rightarrow> pydict \<Rightarrow> string \<Rightarrow> exn + answer_result" where
  "MatchProblem_check_answer self task_input language =
     (case map_of task_input (get_id self) of
        None \<Rightarrow> Inl KeyError
      | Some (PStr s) \<Rightarrow>
          if strip s = answer self
          then Inr (Some True, PNone, Some [PStr ''_correct_answer''], 0)
          else Inr (Some False, PNone, Some [PStr ''_wrong_answer''], 0)
      | Some _ \<Rightarrow> Inl AttributeError)"

section \<open>MultipleChoiceProblem\<close>

record choice =
  index :: int
  text' :: pyval
  feedback :: pyval
  valid :: bool

text \<open>
  The attributes of a \<^verbatim>\<open>MultipleChoiceProblem\<close>. The list \<^verbatim>\<open>_choices\<close> holds the choice
  dicts: their contents where the problem is read as a value, and their addresses where the
  dicts are objects on a heap (further down, for what the methods do to them).
\<close>

record 'c multiple_choice_attrs = basic_problem +
  multiple :: pyval
  limit :: pyval
  centralize :: pyval
  error_message :: pyval
  success_message :: pyval
  choices :: "'c list"

type_synonym multiple_choice_problem = "choice multiple_choice_attrs"

text \<open>
  The body of the constructor's loop for the choice at position \<open>i\<close>. A choice that is not
  a dict raises: \<^verbatim>\<open>"text" not in choice\<close> is a substring or element test on a string or a
  list and a \<^verbatim>\<open>TypeError\<close> on the other values, and \<^verbatim>\<open>choice["text"]\<close> then fails on a
  string or a list.
\<close>

definition parse_choice :: "string \<Rightarrow> nat \<Rightarrow> pyval \<Rightarrow> exn + choice" where
  "parse_choice problemid i c =
     (case contains_str ''text'' c of
        Inl e \<Rightarrow> Inl e
      | Inr has_text \<Rightarrow>
          if \<not> has_text then Inl (Exception (''A choice in '' @ problemid @ '' does not have text''))
          else (case getitem_str c ''text'' of
                  Inl e \<Rightarrow> Inl e
                | Inr t \<Rightarrow>
                    (case c of
                       PDict d \<Rightarrow>
                         Inr \<lparr> index = int i, text' = t, feedback = dict_get d ''feedback'' PNone,
                               valid = truthy (dict_get d ''valid'' (PBool False)) \<rparr>
                     | _ \<Rightarrow> Inl AttributeError)))"

text \<open>
  The loop \<^verbatim>\<open>for index, choice in enumerate(content["choices"])\<close>, with the two lists it
  appends to; the first choice that raises ends it.
\<close>

fun enumerate_choices ::
  "string \<Rightarrow> nat \<Rightarrow> pyval list \<Rightarrow> choice list \<Rightarrow> choice list \<Rightarrow> exn + (choice list \<times> choice list)" where
  "enumerate_choices problemid i [] good_choices bad_choices = Inr (good_choices, bad_choices)"
| "enumerate_choices problemid i (c # cs) good_choices bad_choices =
     (case parse_choice problemid i c of
        Inl e \<Rightarrow> Inl e
      | Inr data \<Rightarrow>
          if valid data
          then enumerate_choices problemid (Suc i) cs (good_choices @ [data]) bad_choices
          else enumerate_choices problemid (Suc i) cs good_choices (bad_choices @ [data]))"

text \<open>Lines 235 to 240: the limit that is stored, or the error for a limit that is refused.\<close>

definition check_limit :: "string \<Rightarrow> pydict \<Rightarrow> pyval \<Rightarrow> nat \<Rightarrow> exn + pyval" where
  "check_limit problemid content multi n_good =
     (let lim = dict_get content ''limit'' PNone in
      if dict_has content ''limit'' \<and> isinstance_int lim \<and> int_value lim \<ge> 0 \<and>
         (\<not> truthy multi \<or> int_value lim \<ge> int n_good \<or> int_value lim = 0)
      then Inr lim
      else if dict_has content ''limit''
      then Inl (Exception (''Invalid limit in problem '' @ problemid))
      else Inr (PInt 0))"

definition MultipleChoiceProblem_init ::
  "(string \<Rightarrow> bool) \<Rightarrow> Task \<Rightarrow> string \<Rightarrow> pydict \<Rightarrow> translations_dict
     \<Rightarrow> exn + multiple_choice_problem" where
  "MultipleChoiceProblem_init idc tsk problemid content translations =
     (case BasicProblem_init idc tsk problemid content translations of
        Inl e \<Rightarrow> Inl e
      | Inr b \<Rightarrow>
          (case map_of content ''choices'' of
             Some (PList cs) \<Rightarrow>
               (case enumerate_choices problemid 0 cs [] [] of
                  Inl e \<Rightarrow> Inl e
                | Inr (good_choices, bad_choices) \<Rightarrow>
                    if length good_choices = 0
                    then Inl (Exception (''Problem '' @ problemid @ '' does not have any valid answer''))
                    else
                      (case check_limit problemid content
                              (dict_get content ''multiple'' (PBool False)) (length good_choices) of
                         Inl e \<Rightarrow> Inl e
                       | Inr lim \<Rightarrow>
                           Inr (basic_problem.extend b
                             (multiple_choice_attrs.fields
                                (dict_get content ''multiple'' (PBool False))
                                lim
                                (dict_get content ''centralize'' (PBool False))
                                (dict_get content ''error_message'' PNone)
                                (dict_get content ''success_message'' PNone)
                                (good_choices @ bad_choices)))))
           | _ \<Rightarrow>
               Inl (Exception (''Multiple choice problem '' @ problemid @
                      '' does not have choices or choices are not an array''))))"

definition allow_multiple :: "multiple_choice_problem \<Rightarrow> pyval" where
  "allow_multiple self = multiple self"

definition get_choice_with_index :: "multiple_choice_problem \<Rightarrow> int \<Rightarrow> choice option" where
  "get_choice_with_index self idx = find (\<lambda>entry. index entry = idx) (choices self)"

text \<open>
  The loop of the multi-select branch of \<^verbatim>\<open>input_is_consistent\<close>, inside its
  \<^verbatim>\<open>try\<close>: a \<^verbatim>\<open>ValueError\<close> of \<^verbatim>\<open>int(entry)\<close> is caught and gives \<^verbatim>\<open>False\<close>, any other
  exception leaves the function.
\<close>

fun entries_consistent :: "multiple_choice_problem \<Rightarrow> pyval list \<Rightarrow> exn + bool" where
  "entries_consistent self [] = Inr True"
| "entries_consistent self (entry # rest) =
     (case py_int entry of
        Inl ValueError \<Rightarrow> Inr False
      | Inl e \<Rightarrow> Inl e
      | Inr i \<Rightarrow>
          (case get_choice_with_index self i of
             None \<Rightarrow> Inr False
           | Some _ \<Rightarrow> entries_consistent self rest))"

definition MultipleChoiceProblem_input_is_consistent ::
  "multiple_choice_problem \<Rightarrow> pydict \<Rightarrow> exn + bool" where
  "MultipleChoiceProblem_input_is_consistent self task_input =
     (case map_of task_input (get_id self) of
        None \<Rightarrow> Inr False
      | Some v \<Rightarrow>
          if truthy (multiple self) then
            (case v of
               PList entries \<Rightarrow> entries_consistent self entries
             | _ \<Rightarrow> Inr False)
          else
            (case py_int v of
               Inl ValueError \<Rightarrow> Inr False
             | Inl e \<Rightarrow> Inl e
             | Inr i \<Rightarrow>
                 (case get_choice_with_index self i of
                    None \<Rightarrow> Inr False
                  | Some _ \<Rightarrow> Inr True)))"

text \<open>
  The first loop of the multi-select branch of \<^verbatim>\<open>check_answer\<close> (lines 288 to 294), on
  the submitted value \<open>x\<close>, threading \<^verbatim>\<open>valid\<close> and \<^verbatim>\<open>invalid_count\<close>. The conditions are
  evaluated left to right and short-circuit: the string form of the index is looked up only
  when the integer is not found.
\<close>

fun grade_choices :: "pyval \<Rightarrow> choice list \<Rightarrow> bool \<Rightarrow> int \<Rightarrow> exn + (bool \<times> int)" where
  "grade_choices x [] ok invalid_count = Inr (ok, invalid_count)"
| "grade_choices x (c # cs) ok invalid_count =
     (if valid c then
        (case contains_int (index c) x of
           Inl e \<Rightarrow> Inl e
         | Inr as_int \<Rightarrow>
             if as_int then grade_choices x cs ok invalid_count
             else
               (case contains_str (str_int (index c)) x of
                  Inl e \<Rightarrow> Inl e
                | Inr as_str \<Rightarrow>
                    if as_str then grade_choices x cs ok invalid_count
                    else grade_choices x cs False (invalid_count + 1)))
      else
        (case contains_int (index c) x of
           Inl e \<Rightarrow> Inl e
         | Inr as_int \<Rightarrow>
             if as_int then grade_choices x cs False (invalid_count + 1)
             else
               (case contains_str (str_int (index c)) x of
                  Inl e \<Rightarrow> Inl e
                | Inr as_str \<Rightarrow>
                    if as_str then grade_choices x cs False (invalid_count + 1)
                    else grade_choices x cs ok invalid_count)))"

text \<open>
  The second loop (lines 295 to 298): \<^verbatim>\<open>get_choice_with_index(int(i))["feedback"]\<close> raises
  when \<^verbatim>\<open>int\<close> does and when no choice has that index (subscripting \<^verbatim>\<open>None\<close>).
\<close>

fun collect_feedback ::
  "multiple_choice_problem \<Rightarrow> string \<Rightarrow> pyval list \<Rightarrow> pyval list \<Rightarrow> exn + pyval list" where
  "collect_feedback self language [] msgs = Inr msgs"
| "collect_feedback self language (i # rest) msgs =
     (case py_int i of
        Inl e \<Rightarrow> Inl e
      | Inr k \<Rightarrow>
          (case get_choice_with_index self k of
             None \<Rightarrow> Inl TypeError
           | Some c \<Rightarrow>
               if feedback c \<noteq> PNone
               then collect_feedback self language rest (msgs @ [gettext self language (feedback c)])
               else collect_feedback self language rest msgs))"

text \<open>Lines 307 to 324, common to both branches: the messages are composed and the tuple built.\<close>

definition compose_result ::
  "multiple_choice_problem \<Rightarrow> string \<Rightarrow> bool \<Rightarrow> int \<Rightarrow> pyval list \<Rightarrow> answer_result" where
  "compose_result self language ok invalid_count msgs =
     (if \<not> ok then
        (let msgs' =
           (if error_message self \<noteq> PNone
            then gettext self language (error_message self) # msgs
            else if \<not> truthy (centralize self)
            then PStr (if truthy (multiple self) then ''_wrong_answer_multiple'' else ''_wrong_answer'') # msgs
            else msgs)
         in if length msgs' \<noteq> 0
            then (Some False, PNone, Some msgs', invalid_count)
            else (Some False, PNone, None, invalid_count))
      else
        (let msgs' =
           (if success_message self \<noteq> PNone
            then gettext self language (success_message self) # msgs
            else msgs)
         in if length msgs' \<noteq> 0
            then (Some True, PNone, Some msgs', 0)
            else (Some True, PNone, None, 0)))"

definition MultipleChoiceProblem_check_answer ::
  "multiple_choice_problem \<Rightarrow> pydict \<Rightarrow> string \<Rightarrow> exn + answer_result" where
  "MultipleChoiceProblem_check_answer self task_input language =
     (case map_of task_input (get_id self) of
        None \<Rightarrow> Inl KeyError
      | Some x \<Rightarrow>
          if truthy (multiple self) then
            (case grade_choices x (choices self) True 0 of
               Inl e \<Rightarrow> Inl e
             | Inr (ok, invalid_count) \<Rightarrow>
                 (case iter x of
                    Inl e \<Rightarrow> Inl e
                  | Inr entries \<Rightarrow>
                      (case collect_feedback self language entries [] of
                         Inl e \<Rightarrow> Inl e
                       | Inr msgs \<Rightarrow> Inr (compose_result self language ok invalid_count msgs))))
          else
            (case py_int x of
               Inl e \<Rightarrow> Inl e
             | Inr k \<Rightarrow>
                 (case get_choice_with_index self k of
                    None \<Rightarrow> Inl TypeError
                  | Some c \<Rightarrow>
                      Inr (compose_result self language (valid c) (if valid c then 0 else 1)
                             (if feedback c \<noteq> PNone then [gettext self language (feedback c)] else [])))))"

section \<open>Code problems\<close>

text \<open>
  The box classes live in \<^verbatim>\<open>tasks_code_boxes.py\<close>, outside this module. \<^verbatim>\<open>_box_types\<close> maps
  a declared type to a class; the constructors themselves are the parameter \<open>new_box\<close>, which
  receives the class, the problem, the box id and the box descriptor and may raise.
\<close>

datatype box_class = InputBox | MultilineBox | TextBox | FileBox

definition box_types :: "string \<Rightarrow> box_class option" where
  "box_types = map_of
     [(''input-text'', InputBox), (''input-decimal'', InputBox), (''input-integer'', InputBox),
      (''multiline'', MultilineBox), (''text'', TextBox), (''file'', FileBox)]"

record 'box basic_code_problem = basic_problem +
  boxes :: "'box list"

type_synonym 'box box_constructor =
  "box_class \<Rightarrow> basic_problem \<Rightarrow> string \<Rightarrow> pyval \<Rightarrow> exn + 'box"

definition BasicCodeProblem_init ::
  "(string \<Rightarrow> bool) \<Rightarrow> Task \<Rightarrow> string \<Rightarrow> pydict \<Rightarrow> translations_dict
     \<Rightarrow> exn + 'box basic_code_problem" where
  "BasicCodeProblem_init idc tsk problemid content translations =
     (case BasicProblem_init idc tsk problemid content translations of
        Inl e \<Rightarrow> Inl e
      | Inr b \<Rightarrow>
          if environment tsk = None
          then Inl (Exception
                 ''Environment undefined, but there is a problem with type=code or type=code-single-line'')
          else Inr (basic_problem.extend b (basic_code_problem.fields [])))"

definition get_boxes :: "'box basic_code_problem \<Rightarrow> 'box list" where
  "get_boxes self = boxes self"

text \<open>
  \<^verbatim>\<open>_create_box\<close>. A type that is not a string is never a key of \<^verbatim>\<open>_box_types\<close>, and the
  message of the exception cannot be built from it (\<^verbatim>\<open>str + non-str\<close>), or it is unhashable:
  a \<^verbatim>\<open>TypeError\<close> either way.
\<close>

definition create_box ::
  "(string \<Rightarrow> bool) \<Rightarrow> 'box box_constructor \<Rightarrow> 'box basic_code_problem \<Rightarrow> string \<Rightarrow> pyval
     \<Rightarrow> exn + 'box" where
  "create_box idc new_box self boxid box_content =
     (if \<not> idc boxid \<and> \<not> boxid = '''' then Inl (Exception (''Invalid box _id '' @ boxid))
      else
        (case contains_str ''type'' box_content of
           Inl e \<Rightarrow> Inl e
         | Inr has_type \<Rightarrow>
             if \<not> has_type then Inl (Exception (''Box '' @ boxid @ '' does not have a type''))
             else
               (case getitem_str box_content ''type'' of
                  Inl e \<Rightarrow> Inl e
                | Inr (PStr t) \<Rightarrow>
                    (case box_types t of
                       None \<Rightarrow> Inl (Exception (''Unknown box type '' @ t @ ''for box _id '' @ boxid))
                     | Some cls \<Rightarrow> new_box cls (basic_problem.truncate self) boxid box_content)
                | Inr _ \<Rightarrow> Inl TypeError)))"

definition BasicCodeProblem_check_answer :: "'box basic_code_problem \<Rightarrow> pydict \<Rightarrow> string \<Rightarrow> exn + answer_result" where
  "BasicCodeProblem_check_answer self task_input language = Inr (None, PNone, None, 0)"

definition CodeSingleLineProblem_init ::
  "(string \<Rightarrow> bool) \<Rightarrow> 'box box_constructor \<Rightarrow> Task \<Rightarrow> string \<Rightarrow> pydict \<Rightarrow> translations_dict
     \<Rightarrow> exn + 'box basic_code_problem" where
  "CodeSingleLineProblem_init idc new_box tsk problemid content translations =
     (case BasicCodeProblem_init idc tsk problemid content translations of
        Inl e \<Rightarrow> Inl e
      | Inr self \<Rightarrow>
          (case create_box idc new_box self ''''
                  (PDict [(''type'', PStr ''input-text''),
                          (''optional'', dict_get content ''optional'' (PBool False))]) of
             Inl e \<Rightarrow> Inl e
           | Inr box \<Rightarrow> Inr (self\<lparr>boxes := [box]\<rparr>)))"

definition CodeFileProblem_init ::
  "(string \<Rightarrow> bool) \<Rightarrow> 'box box_constructor \<Rightarrow> Task \<Rightarrow> string \<Rightarrow> pydict \<Rightarrow> translations_dict
     \<Rightarrow> exn + 'box basic_code_problem" where
  "CodeFileProblem_init idc new_box tsk problemid content translations =
     (case BasicCodeProblem_init idc tsk problemid content translations of
        Inl e \<Rightarrow> Inl e
      | Inr self \<Rightarrow>
          (case create_box idc new_box self ''''
                  (PDict [(''type'', PStr ''file''),
                          (''max_size'', dict_get content ''max_size'' PNone),
                          (''allowed_exts'', dict_get content ''allowed_exts'' PNone)]) of
             Inl e \<Rightarrow> Inl e
           | Inr box \<Rightarrow> Inr (self\<lparr>boxes := [box]\<rparr>)))"

text \<open>
  The loop \<^verbatim>\<open>for boxid, box_content in content['boxes'].items()\<close> of \<^verbatim>\<open>CodeProblem\<close>, with the
  list of boxes built so far.
\<close>

fun create_boxes ::
  "(string \<Rightarrow> bool) \<Rightarrow> 'box box_constructor \<Rightarrow> 'box basic_code_problem \<Rightarrow> pydict
     \<Rightarrow> exn + 'box basic_code_problem" where
  "create_boxes idc new_box self [] = Inr self"
| "create_boxes idc new_box self ((boxid, box_content) # rest) =
     (if boxid = '''' then Inl (Exception ''Empty box ids are not allowed'')
      else
        (case create_box idc new_box self boxid box_content of
           Inl e \<Rightarrow> Inl e
         | Inr box \<Rightarrow> create_boxes idc new_box (self\<lparr>boxes := boxes self @ [box]\<rparr>) rest))"

definition CodeProblem_init ::
  "(string \<Rightarrow> bool) \<Rightarrow> 'box box_constructor \<Rightarrow> Task \<Rightarrow> string \<Rightarrow> pydict \<Rightarrow> translations_dict
     \<Rightarrow> exn + 'box basic_code_problem" where
  "CodeProblem_init idc new_box tsk problemid content translations =
     (case BasicCodeProblem_init idc tsk problemid content translations of
        Inl e \<Rightarrow> Inl e
      | Inr self \<Rightarrow>
          if dict_has content ''boxes'' then
            (case dict_get content ''boxes'' PNone of
               PDict items \<Rightarrow> create_boxes idc new_box (self\<lparr>boxes := []\<rparr>) items
             | _ \<Rightarrow> Inl AttributeError)
          else if dict_has content ''language'' then
            (case create_box idc new_box self ''''
                    (PDict [(''type'', PStr ''multiline''),
                            (''language'', dict_get content ''language'' PNone),
                            (''optional'', dict_get content ''optional'' (PBool False))]) of
               Inl e \<Rightarrow> Inl e
             | Inr box \<Rightarrow> Inr (self\<lparr>boxes := [box]\<rparr>))
          else
            (case create_box idc new_box self ''''
                    (PDict [(''type'', PStr ''multiline''),
                            (''optional'', dict_get content ''optional'' (PBool False))]) of
               Inl e \<Rightarrow> Inl e
             | Inr box \<Rightarrow> Inr (self\<lparr>boxes := [box]\<rparr>)))"

section \<open>Descriptors and submissions\<close>

text \<open>
  What a content descriptor declares, read off the descriptor itself: the list under
  \<^verbatim>\<open>choices\<close>, the validity flag of a declared choice (\<^verbatim>\<open>choice.get('valid', False)\<close> taken
  as a truth value), and the choice record that the declaration at position \<open>i\<close> stands for.
\<close>

definition declared_choices :: "pydict \<Rightarrow> pyval list" where
  "declared_choices content = (case map_of content ''choices'' of Some (PList cs) \<Rightarrow> cs | _ \<Rightarrow> [])"

definition declared_valid :: "pyval \<Rightarrow> bool" where
  "declared_valid c = (case c of PDict d \<Rightarrow> truthy (dict_get d ''valid'' (PBool False)) | _ \<Rightarrow> False)"

definition declared_choice :: "nat \<Rightarrow> pyval \<Rightarrow> choice" where
  "declared_choice i c =
     (case c of
        PDict d \<Rightarrow> \<lparr> index = int i, text' = dict_get d ''text'' PNone,
                      feedback = dict_get d ''feedback'' PNone, valid = declared_valid c \<rparr>
      | _ \<Rightarrow> \<lparr> index = int i, text' = PNone, feedback = PNone, valid = False \<rparr>)"

text \<open>The declared choices in declaration order, numbered from \<open>i\<close>.\<close>

definition indexed_choices :: "nat \<Rightarrow> pyval list \<Rightarrow> choice list" where
  "indexed_choices i cs = map (\<lambda>(j, c). declared_choice j c) (enumerate i cs)"

text \<open>The descriptor with its \<^verbatim>\<open>limit\<close> key removed.\<close>

definition without_limit :: "pydict \<Rightarrow> pydict" where
  "without_limit content = filter (\<lambda>kv. fst kv \<noteq> ''limit'') content"

text \<open>
  An index appears in a submitted list as the integer or as its decimal string. A list of
  choice indices holds nothing but indices of the problem's choices, in either form. The
  mismatches of a submission are the valid choices that are missing from it and the invalid
  choices that are present in it.
\<close>

definition appears :: "int \<Rightarrow> pyval list \<Rightarrow> bool" where
  "appears i entries = (PInt i \<in> set entries \<or> PStr (str_int i) \<in> set entries)"

definition is_choice_index :: "multiple_choice_problem \<Rightarrow> pyval \<Rightarrow> bool" where
  "is_choice_index self e = (\<exists>c\<in>set (choices self). e = PInt (index c) \<or> e = PStr (str_int (index c)))"

definition mismatches :: "multiple_choice_problem \<Rightarrow> pyval list \<Rightarrow> choice list" where
  "mismatches self entries =
     filter (\<lambda>c. (valid c \<and> \<not> appears (index c) entries) \<or> (\<not> valid c \<and> appears (index c) entries))
       (choices self)"

section \<open>The problem as an object\<close>

text \<open>
  For what the methods do to a problem after construction, the choice dicts are objects on a
  heap: a list of dicts, the address of a dict being its position. The constructor allocates
  one dict for each declared choice, in declaration order, and \<^verbatim>\<open>_choices\<close> holds the
  addresses, the valid ones first. A state is the attributes of the problem together with the
  heap; \<open>view\<close> reads the problem off a state, every address replaced by the dict found
  there.
\<close>

record mcq_state =
  obj :: "nat multiple_choice_attrs"
  heap :: "choice list"

definition view :: "mcq_state \<Rightarrow> multiple_choice_problem" where
  "view s =
     basic_problem.extend (basic_problem.truncate (obj s))
       (multiple_choice_attrs.fields (multiple (obj s)) (limit (obj s)) (centralize (obj s))
          (error_message (obj s)) (success_message (obj s))
          (map (\<lambda>entry. heap s ! entry) (choices (obj s))))"

text \<open>
  The constructor once more, with the allocation of \<^verbatim>\<open>data\<close> in every round of the loop
  written out: the new dict goes to the end of the heap and its address is appended to the
  good or to the bad choices.
\<close>

fun enumerate_alloc ::
  "string \<Rightarrow> nat \<Rightarrow> pyval list \<Rightarrow> nat list \<Rightarrow> nat list \<Rightarrow> choice list
     \<Rightarrow> exn + (nat list \<times> nat list \<times> choice list)" where
  "enumerate_alloc problemid i [] good_choices bad_choices h = Inr (good_choices, bad_choices, h)"
| "enumerate_alloc problemid i (c # cs) good_choices bad_choices h =
     (case parse_choice problemid i c of
        Inl e \<Rightarrow> Inl e
      | Inr data \<Rightarrow>
          if valid data
          then enumerate_alloc problemid (Suc i) cs (good_choices @ [length h]) bad_choices (h @ [data])
          else enumerate_alloc problemid (Suc i) cs good_choices (bad_choices @ [length h]) (h @ [data]))"

definition MultipleChoiceProblem_new ::
  "(string \<Rightarrow> bool) \<Rightarrow> Task \<Rightarrow> string \<Rightarrow> pydict \<Rightarrow> translations_dict \<Rightarrow> choice list
     \<Rightarrow> exn + mcq_state" where
  "MultipleChoiceProblem_new idc tsk problemid content translations h =
     (case BasicProblem_init idc tsk problemid content translations of
        Inl e \<Rightarrow> Inl e
      | Inr b \<Rightarrow>
          (case map_of content ''choices'' of
             Some (PList cs) \<Rightarrow>
               (case enumerate_alloc problemid 0 cs [] [] h of
                  Inl e \<Rightarrow> Inl e
                | Inr (good_choices, bad_choices, h') \<Rightarrow>
                    if length good_choices = 0
                    then Inl (Exception (''Problem '' @ problemid @ '' does not have any valid answer''))
                    else
                      (case check_limit problemid content
                              (dict_get content ''multiple'' (PBool False)) (length good_choices) of
                         Inl e \<Rightarrow> Inl e
                       | Inr lim \<Rightarrow>
                           Inr \<lparr> obj = basic_problem.extend b
                                   (multiple_choice_attrs.fields
                                      (dict_get content ''multiple'' (PBool False))
                                      lim
                                      (dict_get content ''centralize'' (PBool False))
                                      (dict_get content ''error_message'' PNone)
                                      (dict_get content ''success_message'' PNone)
                                      (good_choices @ bad_choices)),
                                 heap = h' \<rparr>))
           | _ \<Rightarrow>
               Inl (Exception (''Multiple choice problem '' @ problemid @
                      '' does not have choices or choices are not an array''))))"

text \<open>
  The methods, each taking the state and returning its result with the state after the call.
  \<^verbatim>\<open>get_choice_with_index\<close> returns the entry of \<^verbatim>\<open>_choices\<close> itself, that is the address
  of the stored dict and not a copy of it; the other methods read the dicts through their
  addresses.
\<close>

fun get_choice_loop :: "mcq_state \<Rightarrow> nat list \<Rightarrow> int \<Rightarrow> nat option" where
  "get_choice_loop s [] idx = None"
| "get_choice_loop s (entry # rest) idx =
     (if index (heap s ! entry) = idx then Some entry else get_choice_loop s rest idx)"

definition method_get_choice_with_index :: "mcq_state \<Rightarrow> int \<Rightarrow> nat option \<times> mcq_state" where
  "method_get_choice_with_index s idx = (get_choice_loop s (choices (obj s)) idx, s)"

fun method_entries_consistent :: "mcq_state \<Rightarrow> pyval list \<Rightarrow> (exn + bool) \<times> mcq_state" where
  "method_entries_consistent s [] = (Inr True, s)"
| "method_entries_consistent s (entry # rest) =
     (case py_int entry of
        Inl ValueError \<Rightarrow> (Inr False, s)
      | Inl e \<Rightarrow> (Inl e, s)
      | Inr i \<Rightarrow>
          (case method_get_choice_with_index s i of
             (None, s') \<Rightarrow> (Inr False, s')
           | (Some _, s') \<Rightarrow> method_entries_consistent s' rest))"

definition method_input_is_consistent :: "mcq_state \<Rightarrow> pydict \<Rightarrow> (exn + bool) \<times> mcq_state" where
  "method_input_is_consistent s task_input =
     (case map_of task_input (get_id (obj s)) of
        None \<Rightarrow> (Inr False, s)
      | Some v \<Rightarrow>
          if truthy (multiple (obj s)) then
            (case v of
               PList entries \<Rightarrow> method_entries_consistent s entries
             | _ \<Rightarrow> (Inr False, s))
          else
            (case py_int v of
               Inl ValueError \<Rightarrow> (Inr False, s)
             | Inl e \<Rightarrow> (Inl e, s)
             | Inr i \<Rightarrow>
                 (case method_get_choice_with_index s i of
                    (None, s') \<Rightarrow> (Inr False, s')
                  | (Some _, s') \<Rightarrow> (Inr True, s'))))"

fun method_collect_feedback ::
  "mcq_state \<Rightarrow> string \<Rightarrow> pyval list \<Rightarrow> pyval list \<Rightarrow> (exn + pyval list) \<times> mcq_state" where
  "method_collect_feedback s language [] msgs = (Inr msgs, s)"
| "method_collect_feedback s language (i # rest) msgs =
     (case py_int i of
        Inl e \<Rightarrow> (Inl e, s)
      | Inr k \<Rightarrow>
          (case method_get_choice_with_index s k of
             (None, s') \<Rightarrow> (Inl TypeError, s')
           | (Some entry, s') \<Rightarrow>
               if feedback (heap s' ! entry) \<noteq> PNone
               then method_collect_feedback s' language rest
                      (msgs @ [gettext (obj s') language (feedback (heap s' ! entry))])
               else method_collect_feedback s' language rest msgs))"

definition method_check_answer ::
  "mcq_state \<Rightarrow> pydict \<Rightarrow> string \<Rightarrow> (exn + answer_result) \<times> mcq_state" where
  "method_check_answer s task_input language =
     (case map_of task_input (get_id (obj s)) of
        None \<Rightarrow> (Inl KeyError, s)
      | Some x \<Rightarrow>
          if truthy (multiple (obj s)) then
            (case grade_choices x (map (\<lambda>entry. heap s ! entry) (choices (obj s))) True 0 of
               Inl e \<Rightarrow> (Inl e, s)
             | Inr (ok, invalid_count) \<Rightarrow>
                 (case iter x of
                    Inl e \<Rightarrow> (Inl e, s)
                  | Inr entries \<Rightarrow>
                      (case method_collect_feedback s language entries [] of
                         (Inl e, s') \<Rightarrow> (Inl e, s')
                       | (Inr msgs, s') \<Rightarrow>
                           (Inr (compose_result (view s') language ok invalid_count msgs), s'))))
          else
            (case py_int x of
               Inl e \<Rightarrow> (Inl e, s)
             | Inr k \<Rightarrow>
                 (case method_get_choice_with_index s k of
                    (None, s') \<Rightarrow> (Inl TypeError, s')
                  | (Some entry, s') \<Rightarrow>
                      (Inr (compose_result (view s') language (valid (heap s' ! entry))
                              (if valid (heap s' ! entry) then 0 else 1)
                              (if feedback (heap s' ! entry) \<noteq> PNone
                               then [gettext (obj s') language (feedback (heap s' ! entry))]
                               else [])), s'))))"

text \<open>
  Every method that a \<^verbatim>\<open>MultipleChoiceProblem\<close> has, its own and those of \<^verbatim>\<open>BasicProblem\<close>,
  as one call, and a sequence of calls run from a state.
\<close>

datatype mcq_call =
    Get_type
  | Get_id
  | Get_task
  | Get_name string
  | Get_header string
  | Get_original_content
  | Gettext string pyval
  | Get_text_fields
  | Allow_multiple
  | Get_choice_with_index int
  | Input_is_consistent pydict
  | Check_answer pydict string

datatype mcq_result =
    Value pyval
  | Text string
  | Owner Task
  | Entry "nat option"
  | Consistent bool
  | Graded answer_result

fun call :: "mcq_call \<Rightarrow> mcq_state \<Rightarrow> (exn + mcq_result) \<times> mcq_state" where
  "call Get_type s = (Inr (Text ''multiple-choice''), s)"
| "call Get_id s = (Inr (Text (get_id (obj s))), s)"
| "call Get_task s = (Inr (Owner (task (obj s))), s)"
| "call (Get_name language) s =
     (Inr (Value (if truthy (name (obj s)) then gettext (obj s) language (name (obj s)) else PStr '''')), s)"
| "call (Get_header language) s =
     (Inr (Value (if truthy (header (obj s)) then gettext (obj s) language (header (obj s)) else PStr '''')), s)"
| "call Get_original_content s = (Inr (Value (PDict (get_original_content (obj s)))), s)"
| "call (Gettext language msg) s = (Inr (Value (gettext (obj s) language msg)), s)"
| "call Get_text_fields s =
     (Inr (Value (PDict [(''name'', PBool True), (''header'', PBool True),
                         (''success_message'', PBool True), (''error_message'', PBool True),
                         (''choices'', PList [PDict [(''text'', PBool True), (''feedback'', PBool True)]])])), s)"
| "call Allow_multiple s = (Inr (Value (multiple (obj s))), s)"
| "call (Get_choice_with_index idx) s =
     (case method_get_choice_with_index s idx of (entry, s') \<Rightarrow> (Inr (Entry entry), s'))"
| "call (Input_is_consistent task_input) s =
     (case method_input_is_consistent s task_input of
        (Inl e, s') \<Rightarrow> (Inl e, s')
      | (Inr b, s') \<Rightarrow> (Inr (Consistent b), s'))"
| "call (Check_answer task_input language) s =
     (case method_check_answer s task_input language of
        (Inl e, s') \<Rightarrow> (Inl e, s')
      | (Inr r, s') \<Rightarrow> (Inr (Graded r), s'))"

fun run :: "mcq_call list \<Rightarrow> mcq_state \<Rightarrow> mcq_state" where
  "run [] s = s"
| "run (c # cs) s = run cs (snd (call c s))"

section \<open>Example problems\<close>

text \<open>
  Modelled from the spec: \<^verbatim>\<open>inginious.common.base.id_checker\<close> is imported by the module and
  is not part of it. The specification calls it a restricted-identifier validator over a safe
  charset; here an identifier is a non-empty string of letters, digits, hyphens and
  underscores. The theorems below hold for every identifier check; this one is used where a
  problem is built from a concrete descriptor.
\<close>

definition id_checker :: "string \<Rightarrow> bool" where
  "id_checker s =
     (s \<noteq> [] \<and>
      list_all (\<lambda>c. is_digit c
                    \<or> (65 \<le> (of_char c :: nat) \<and> (of_char c :: nat) \<le> 90)
                    \<or> (97 \<le> (of_char c :: nat) \<and> (of_char c :: nat) \<le> 122)
                    \<or> c = CHR ''-'' \<or> c = CHR ''_'') s)"

definition example_task :: Task where
  "example_task = \<lparr> environment = Some ''default'' \<rparr>"

definition match_content :: pydict where
  "match_content = [(''name'', PStr ''Capital''), (''answer'', PStr ''Abc d'')]"

definition match_example :: match_problem where
  "match_example =
     \<lparr> translations' = Map.empty, id' = ''q1'', task = example_task,
       name = PStr ''Capital'', header = PStr '''', original_content = match_content,
       answer = ''Abc d'' \<rparr>"

text \<open>
  The multiple-choice problem of the specification's examples: choices 0 and 1 valid,
  choice 2 invalid, with the mode and the limit left open.
\<close>

definition spec_content :: "bool \<Rightarrow> int \<Rightarrow> pydict" where
  "spec_content multi lim =
     [(''name'', PStr ''Pick''),
      (''multiple'', PBool multi),
      (''limit'', PInt lim),
      (''choices'', PList
         [PDict [(''text'', PStr ''a''), (''valid'', PBool True)],
          PDict [(''text'', PStr ''b''), (''valid'', PBool True), (''feedback'', PStr ''right'')],
          PDict [(''text'', PStr ''c''), (''feedback'', PStr ''wrong'')]])]"

definition spec_problem :: "bool \<Rightarrow> int \<Rightarrow> multiple_choice_problem" where
  "spec_problem multi lim =
     \<lparr> translations' = Map.empty, id' = ''q1'', task = example_task,
       name = PStr ''Pick'', header = PStr '''', original_content = spec_content multi lim,
       multiple = PBool multi, limit = PInt lim, centralize = PBool False,
       error_message = PNone, success_message = PNone,
       choices =
         [\<lparr> index = 0, text' = PStr ''a'', feedback = PNone, valid = True \<rparr>,
          \<lparr> index = 1, text' = PStr ''b'', feedback = PStr ''right'', valid = True \<rparr>,
          \<lparr> index = 2, text' = PStr ''c'', feedback = PStr ''wrong'', valid = False \<rparr>] \<rparr>"

text \<open>A descriptor without any valid choice, and one that declares invalid choices first.\<close>

definition no_valid_content :: pydict where
  "no_valid_content =
     [(''choices'', PList
         [PDict [(''text'', PStr ''a'')],
          PDict [(''text'', PStr ''b''), (''valid'', PBool False)]])]"

definition shuffled_content :: pydict where
  "shuffled_content =
     [(''choices'', PList
         [PDict [(''text'', PStr ''a'')],
          PDict [(''text'', PStr ''b''), (''valid'', PBool True)],
          PDict [(''text'', PStr ''c''), (''valid'', PBool False)],
          PDict [(''text'', PStr ''d''), (''valid'', PInt 1)]])]"

definition shuffled_problem :: multiple_choice_problem where
  "shuffled_problem =
     \<lparr> translations' = Map.empty, id' = ''q1'', task = example_task,
       name = PStr '''', header = PStr '''', original_content = shuffled_content,
       multiple = PBool False, limit = PInt 0, centralize = PBool False,
       error_message = PNone, success_message = PNone,
       choices =
         [\<lparr> index = 1, text' = PStr ''b'', feedback = PNone, valid = True \<rparr>,
          \<lparr> index = 3, text' = PStr ''d'', feedback = PNone, valid = True \<rparr>,
          \<lparr> index = 0, text' = PStr ''a'', feedback = PNone, valid = False \<rparr>,
          \<lparr> index = 2, text' = PStr ''c'', feedback = PNone, valid = False \<rparr>] \<rparr>"

text \<open>The state that the constructor returns for that descriptor on an empty heap.\<close>

definition shuffled_state :: mcq_state where
  "shuffled_state =
     \<lparr> obj =
         \<lparr> translations' = Map.empty, id' = ''q1'', task = example_task,
           name = PStr '''', header = PStr '''', original_content = shuffled_content,
           multiple = PBool False, limit = PInt 0, centralize = PBool False,
           error_message = PNone, success_message = PNone,
           choices = [1, 3, 0, 2] \<rparr>,
       heap =
         [\<lparr> index = 0, text' = PStr ''a'', feedback = PNone, valid = False \<rparr>,
          \<lparr> index = 1, text' = PStr ''b'', feedback = PNone, valid = True \<rparr>,
          \<lparr> index = 2, text' = PStr ''c'', feedback = PNone, valid = False \<rparr>,
          \<lparr> index = 3, text' = PStr ''d'', feedback = PNone, valid = True \<rparr>] \<rparr>"

text \<open>A box constructor that accepts every descriptor and records the class and the id.\<close>

definition example_new_box :: "(box_class \<times> string) box_constructor" where
  "example_new_box cls problem boxid box_content = Inr (cls, boxid)"

definition boxes_content :: pydict where
  "boxes_content =
     [(''boxes'', PDict
         [(''b1'', PDict [(''type'', PStr ''text'')]),
          ('''', PDict [(''type'', PStr ''multiline'')])])]"

definition two_boxes_content :: pydict where
  "two_boxes_content =
     [(''boxes'', PDict
         [(''b1'', PDict [(''type'', PStr ''text'')]),
          (''b2'', PDict [(''type'', PStr ''file'')])])]"

definition unknown_type_content :: pydict where
  "unknown_type_content =
     [(''boxes'', PDict
         [(''b1'', PDict [(''type'', PStr ''text'')]),
          (''b2'', PDict [(''type'', PStr ''slider'')])])]"

section \<open>Facts about the built-ins\<close>

lemma strip_decomp:
  "\<exists>l r. s = l @ strip s @ r \<and> (\<forall>c\<in>set l. py_isspace c) \<and> (\<forall>c\<in>set r. py_isspace c)"
proof -
  let ?a = "takeWhile py_isspace s"
  let ?m = "dropWhile py_isspace s"
  let ?b = "rev (takeWhile py_isspace (rev ?m))"
  have "rev (takeWhile py_isspace (rev ?m) @ dropWhile py_isspace (rev ?m)) = rev (rev ?m)"
    by (simp only: takeWhile_dropWhile_id)
  then have m: "?m = strip s @ ?b" by (simp only: rev_append rev_rev_ident strip_def)
  have "s = ?a @ ?m" by simp
  with m have "s = ?a @ strip s @ ?b" by simp
  moreover have "\<forall>c\<in>set ?a. py_isspace c" by (auto dest: set_takeWhileD)
  moreover have "\<forall>c\<in>set ?b. py_isspace c" by (auto dest: set_takeWhileD)
  ultimately show ?thesis by blast
qed

lemma dict_has_iff: "dict_has d k \<longleftrightarrow> k \<in> fst ` set d"
proof (cases "map_of d k")
  case None
  then have "k \<notin> fst ` set d" by (simp add: map_of_eq_None_iff)
  with None show ?thesis by (simp add: dict_has_def)
next
  case (Some v)
  then have "(k, v) \<in> set d" by (rule map_of_SomeD)
  then have "k \<in> fst ` set d" by force
  with Some show ?thesis by (simp add: dict_has_def)
qed

lemma dict_has_Some: "map_of d k = Some v \<Longrightarrow> dict_has d k"
  by (simp add: dict_has_def)

lemma dict_get_cong: "map_of c1 k = map_of c2 k \<Longrightarrow> dict_get c1 k dflt = dict_get c2 k dflt"
  by (simp add: dict_get_def)

subsection \<open>The decimal string of an integer converts back to it\<close>

lemma is_digit_digit_char: "d < 10 \<Longrightarrow> is_digit (digit_char d)"
  by (simp add: is_digit_def digit_char_def)

lemma digit_val_digit_char: "d < 10 \<Longrightarrow> digit_val (digit_char d) = int d"
  by (simp add: digit_val_def digit_char_def)

lemma str_nat_digits: "c \<in> set (str_nat n) \<Longrightarrow> is_digit c"
proof (induction n arbitrary: c rule: str_nat.induct)
  case (1 n)
  show ?case
  proof (cases "n < 10")
    case True
    with "1.prems" show ?thesis by (simp add: str_nat.simps [of n] is_digit_digit_char)
  next
    case False
    with "1.prems" "1.IH" show ?thesis
      by (auto simp: str_nat.simps [of n] is_digit_digit_char)
  qed
qed

lemma str_nat_nonempty: "str_nat n \<noteq> []"
  by (simp add: str_nat.simps [of n])

lemma is_digit_plain:
  "is_digit c \<Longrightarrow> c \<noteq> CHR ''_'' \<and> c \<noteq> CHR ''-'' \<and> c \<noteq> CHR ''+'' \<and> \<not> int_isspace c"
  by (auto simp: is_digit_def int_isspace_def)

lemma digits_ok_digits: "s \<noteq> [] \<Longrightarrow> \<forall>c\<in>set s. is_digit c \<Longrightarrow> digits_ok s"
  by (induction s rule: digits_ok.induct) (auto dest: is_digit_plain)

lemma foldl_str_nat: "foldl (\<lambda>a c. 10 * a + digit_val c) 0 (str_nat n) = int n"
proof (induction n rule: str_nat.induct)
  case (1 n)
  show ?case
  proof (cases "n < 10")
    case True
    then show ?thesis by (simp add: str_nat.simps [of n] digit_val_digit_char)
  next
    case False
    have "10 * int (n div 10) + int (n mod 10) = int n"
      by (simp add: zdiv_int zmod_int)
    with False "1.IH" show ?thesis
      by (simp add: str_nat.simps [of n] digit_val_digit_char)
  qed
qed

lemma digits_value_str_nat: "digits_value (str_nat n) = int n"
proof -
  have "filter is_digit (str_nat n) = str_nat n"
    by (simp add: filter_id_conv str_nat_digits)
  then show ?thesis by (simp add: digits_value_def foldl_str_nat)
qed

lemma strip_int_unchanged:
  assumes "s \<noteq> []" "\<not> int_isspace (hd s)" "\<not> int_isspace (last s)"
  shows "rev (dropWhile int_isspace (rev (dropWhile int_isspace s))) = s"
proof -
  from assms have a: "dropWhile int_isspace s = s" by (simp add: dropWhile_eq_self_iff)
  from assms have "dropWhile int_isspace (rev s) = rev s"
    by (simp add: dropWhile_eq_self_iff hd_rev)
  with a show ?thesis by simp
qed

lemma int_of_str_str_nat: "int_of_str (str_nat n) = Inr (int n)"
proof -
  let ?s = "str_nat n"
  have ne: "?s \<noteq> []" by (rule str_nat_nonempty)
  then have "hd ?s \<in> set ?s" "last ?s \<in> set ?s" by simp_all
  then have d: "is_digit (hd ?s)" "is_digit (last ?s)" by (auto dest: str_nat_digits)
  with ne have st: "rev (dropWhile int_isspace (rev (dropWhile int_isspace ?s))) = ?s"
    by (intro strip_int_unchanged) (auto dest: is_digit_plain)
  from ne obtain c cs where s: "?s = c # cs" by (cases ?s) auto
  with d have c: "c \<noteq> CHR ''-''" "c \<noteq> CHR ''+''" by (auto dest: is_digit_plain)
  have ok: "digits_ok ?s" using ne by (rule digits_ok_digits) (auto dest: str_nat_digits)
  show ?thesis
    unfolding int_of_str_def st using c ok digits_value_str_nat [of n]
    by (simp add: s)
qed

lemma int_of_str_minus_str_nat: "int_of_str (CHR ''-'' # str_nat n) = Inr (- int n)"
proof -
  let ?s = "CHR ''-'' # str_nat n"
  have ne: "str_nat n \<noteq> []" by (rule str_nat_nonempty)
  then have "last (str_nat n) \<in> set (str_nat n)" by simp
  then have "is_digit (last (str_nat n))" by (rule str_nat_digits)
  with ne have "\<not> int_isspace (last ?s)" by (auto dest: is_digit_plain)
  moreover have "\<not> int_isspace (hd ?s)" by (simp add: int_isspace_def)
  ultimately have st: "rev (dropWhile int_isspace (rev (dropWhile int_isspace ?s))) = ?s"
    by (intro strip_int_unchanged) simp_all
  have ok: "digits_ok (str_nat n)" using ne by (rule digits_ok_digits) (auto dest: str_nat_digits)
  show ?thesis
    unfolding int_of_str_def st using ok digits_value_str_nat [of n] by simp
qed

lemma int_of_str_str_int: "int_of_str (str_int i) = Inr i"
  by (simp add: str_int_def int_of_str_str_nat int_of_str_minus_str_nat)

lemma py_int_choice_index:
  "e = PInt i \<or> e = PStr (str_int i) \<Longrightarrow> py_int e = Inr i"
  by (auto simp: int_of_str_str_int)

lemma str_int_digits: "str_int 0 = ''0''" "str_int 1 = ''1''" "str_int 2 = ''2''" "str_int 3 = ''3''"
  by code_simp+

lemma int_of_str_digits:
  "int_of_str ''0'' = Inr 0" "int_of_str ''1'' = Inr 1" "int_of_str ''2'' = Inr 2"
  by code_simp+

section \<open>Match problems\<close>

lemma match_example_built:
  "MatchProblem_init id_checker repr example_task ''q1'' match_content Map.empty = Inr match_example"
  by (simp add: MatchProblem_init_def BasicProblem_init_def id_checker_def is_digit_def dict_has_def
      dict_get_def basic_problem.defs match_problem.defs match_example_def match_content_def)

text \<open>
  Claim C2. For a Match problem and a submission that holds a string under the problem's id,
  \<^verbatim>\<open>check_answer\<close> returns; the answer is correct exactly when the submitted string, stripped
  of leading and trailing whitespace, is the stored answer; the feedback is the key
  \<^verbatim>\<open>_correct_answer\<close> when correct and \<^verbatim>\<open>_wrong_answer\<close> when not; the error count is 0 in
  both cases.
\<close>

theorem match_check_answer:
  assumes "map_of task_input (get_id self) = Some (PStr s)"
  shows "\<exists>ok msgs. MatchProblem_check_answer self task_input language = Inr (Some ok, PNone, Some msgs, 0)
           \<and> (ok \<longleftrightarrow> strip s = answer self)
           \<and> (ok \<longrightarrow> msgs = [PStr ''_correct_answer''])
           \<and> (\<not> ok \<longrightarrow> msgs = [PStr ''_wrong_answer''])"
  using assms by (simp add: MatchProblem_check_answer_def)

theorem match_check_answer_witness:
  "map_of [(''q1'', PStr ''  Abc d  '')] (get_id match_example) = Some (PStr ''  Abc d  '')
   \<and> MatchProblem_check_answer match_example [(''q1'', PStr ''  Abc d  '')] ''en''
       = Inr (Some True, PNone, Some [PStr ''_correct_answer''], 0)
   \<and> MatchProblem_check_answer match_example [(''q1'', PStr ''abc d'')] ''en''
       = Inr (Some False, PNone, Some [PStr ''_wrong_answer''], 0)"
proof -
  have h: "map_of [(''q1'', PStr ''  Abc d  '')] (get_id match_example) = Some (PStr ''  Abc d  '')"
    by (simp add: get_id_def match_example_def)
  have h2: "map_of [(''q1'', PStr ''abc d'')] (get_id match_example) = Some (PStr ''abc d'')"
    by (simp add: get_id_def match_example_def)
  have a: "strip ''  Abc d  '' = answer match_example" "strip ''abc d'' \<noteq> answer match_example"
    by (simp_all add: strip_def py_isspace_def match_example_def)
  show ?thesis
    using h a match_check_answer [OF h, of "''en''"] match_check_answer [OF h2, of "''en''"]
    by auto
qed

text \<open>
  Claim C10. For a Match problem, \<^verbatim>\<open>input_is_consistent\<close> is true exactly when the problem's
  id is a key of the submission, whatever the value: a value that is not a string passes the
  check, and \<^verbatim>\<open>check_answer\<close> then raises on it.
\<close>

theorem match_input_is_consistent:
  "MatchProblem_input_is_consistent self task_input = Inr (get_id self \<in> fst ` set task_input)
   \<and> (\<forall>v. map_of task_input (get_id self) = Some v \<longrightarrow> (\<forall>s. v \<noteq> PStr s) \<longrightarrow>
         MatchProblem_input_is_consistent self task_input = Inr True
         \<and> MatchProblem_check_answer self task_input language = Inl AttributeError)"
proof (intro conjI allI impI)
  show "MatchProblem_input_is_consistent self task_input = Inr (get_id self \<in> fst ` set task_input)"
    by (simp add: MatchProblem_input_is_consistent_def dict_has_iff)
next
  fix v assume "map_of task_input (get_id self) = Some v"
  then show "MatchProblem_input_is_consistent self task_input = Inr True"
    by (simp add: MatchProblem_input_is_consistent_def dict_has_Some)
next
  fix v assume "map_of task_input (get_id self) = Some v" "\<forall>s. v \<noteq> PStr s"
  then show "MatchProblem_check_answer self task_input language = Inl AttributeError"
    by (cases v) (simp_all add: MatchProblem_check_answer_def)
qed

theorem match_input_is_consistent_witness:
  "MatchProblem_input_is_consistent match_example [(''q1'', PInt 5)] = Inr True
   \<and> MatchProblem_check_answer match_example [(''q1'', PInt 5)] ''en'' = Inl AttributeError
   \<and> MatchProblem_input_is_consistent match_example [(''q2'', PStr ''Abc d'')] = Inr False"
proof -
  have h: "map_of [(''q1'', PInt 5)] (get_id match_example) = Some (PInt 5)"
    by (simp add: get_id_def match_example_def)
  have n: "get_id match_example \<notin> fst ` set [(''q2'', PStr ''Abc d'')]"
    by (simp add: get_id_def match_example_def)
  show ?thesis
    using h n match_input_is_consistent [of match_example "[(''q1'', PInt 5)]" "''en''"]
      match_input_is_consistent [of match_example "[(''q2'', PStr ''Abc d'')]" "''en''"]
    by auto
qed

section \<open>Construction of a multiple-choice problem\<close>

lemma parse_choice_Inr:
  assumes "parse_choice problemid i c = Inr data"
  shows "data = declared_choice i c \<and> (\<exists>d. c = PDict d)"
proof (cases c)
  case (PDict d)
  with assms show ?thesis
    by (auto simp: parse_choice_def declared_choice_def declared_valid_def dict_get_def dict_has_def
        split: option.splits if_splits)
qed (use assms in \<open>auto simp: parse_choice_def split: if_splits\<close>)

lemma enumerate_choices_Inr:
  "enumerate_choices problemid i cs good bad = Inr (good', bad') \<Longrightarrow>
     good' = good @ filter valid (indexed_choices i cs) \<and>
     bad' = bad @ filter (\<lambda>d. \<not> valid d) (indexed_choices i cs)"
proof (induction cs arbitrary: i good bad)
  case Nil
  then show ?case by (simp add: indexed_choices_def)
next
  case (Cons c cs)
  from Cons.prems obtain data where d: "parse_choice problemid i c = Inr data"
    by (cases "parse_choice problemid i c") simp_all
  then have dc: "data = declared_choice i c" using parse_choice_Inr by blast
  show ?case
  proof (cases "valid data")
    case True
    with Cons.prems d have "enumerate_choices problemid (Suc i) cs (good @ [data]) bad = Inr (good', bad')"
      by simp
    from Cons.IH [OF this] True dc show ?thesis by (simp add: indexed_choices_def enumerate_simps)
  next
    case False
    with Cons.prems d have "enumerate_choices problemid (Suc i) cs good (bad @ [data]) = Inr (good', bad')"
      by simp
    from Cons.IH [OF this] False dc show ?thesis by (simp add: indexed_choices_def enumerate_simps)
  qed
qed

lemma enumerate_choices_no_valid:
  "\<forall>c\<in>set cs. \<not> declared_valid c \<Longrightarrow> enumerate_choices problemid i cs good bad = Inr (good', bad')
     \<Longrightarrow> good' = good"
proof (induction cs arbitrary: i bad)
  case Nil
  then show ?case by simp
next
  case (Cons c cs)
  from Cons.prems obtain data where d: "parse_choice problemid i c = Inr data"
    by (cases "parse_choice problemid i c") simp_all
  then have "data = declared_choice i c" "\<exists>d. c = PDict d" using parse_choice_Inr by blast+
  with Cons.prems have "\<not> valid data" by (auto simp: declared_choice_def)
  with Cons.prems d have "enumerate_choices problemid (Suc i) cs good (bad @ [data]) = Inr (good', bad')"
    by simp
  with Cons.IH Cons.prems show ?case by simp
qed

lemma MultipleChoiceProblem_init_Inr:
  assumes "MultipleChoiceProblem_init idc tsk problemid content translations = Inr p"
  obtains cs good bad lim where
    "idc problemid"
    "map_of content ''choices'' = Some (PList cs)"
    "enumerate_choices problemid 0 cs [] [] = Inr (good, bad)"
    "good \<noteq> []"
    "check_limit problemid content (dict_get content ''multiple'' (PBool False)) (length good) = Inr lim"
    "id' p = problemid" "translations' p = translations" "original_content p = content"
    "multiple p = dict_get content ''multiple'' (PBool False)"
    "limit p = lim"
    "centralize p = dict_get content ''centralize'' (PBool False)"
    "error_message p = dict_get content ''error_message'' PNone"
    "success_message p = dict_get content ''success_message'' PNone"
    "choices p = good @ bad"
  using assms
  by (auto simp: MultipleChoiceProblem_init_def BasicProblem_init_def basic_problem.defs
      multiple_choice_attrs.defs
      split: sum.splits option.splits pyval.splits if_splits prod.splits)

lemma MultipleChoiceProblem_init_succeeds_iff:
  "(\<exists>p. MultipleChoiceProblem_init idc tsk problemid content translations = Inr p) \<longleftrightarrow>
     idc problemid \<and>
     (\<exists>cs good bad. map_of content ''choices'' = Some (PList cs) \<and>
        enumerate_choices problemid 0 cs [] [] = Inr (good, bad) \<and> good \<noteq> [] \<and>
        (\<exists>l. check_limit problemid content (dict_get content ''multiple'' (PBool False)) (length good)
               = Inr l))"
  (is "?L \<longleftrightarrow> ?R")
proof
  assume ?L
  then obtain p where "MultipleChoiceProblem_init idc tsk problemid content translations = Inr p" ..
  then show ?R by (rule MultipleChoiceProblem_init_Inr) blast
next
  assume ?R
  then show ?L
    by (auto simp: MultipleChoiceProblem_init_def BasicProblem_init_def)
qed

lemma declared_choices_eq: "map_of content ''choices'' = Some (PList cs) \<Longrightarrow> declared_choices content = cs"
  by (simp add: declared_choices_def)

lemma length_indexed_choices [simp]: "length (indexed_choices i cs) = length cs"
  by (simp add: indexed_choices_def)

lemma nth_indexed_choices:
  "j < length cs \<Longrightarrow> indexed_choices i cs ! j = declared_choice (i + j) (cs ! j)"
  by (simp add: indexed_choices_def nth_enumerate_eq)

lemma index_declared_choice [simp]: "index (declared_choice i c) = int i"
  by (cases c) (simp_all add: declared_choice_def)

lemma map_index_indexed_choices: "map index (indexed_choices i cs) = map int [i..<i + length cs]"
  by (rule nth_equalityI) (simp_all add: nth_indexed_choices)

lemma sorted_index_indexed_choices:
  "sorted_wrt (\<lambda>a b. index a < index b) (indexed_choices i cs)"
proof -
  have "sorted_wrt (<) (map int [i..<i + length cs])"
    by (simp add: sorted_wrt_map)
  then show ?thesis
    by (simp add: map_index_indexed_choices [symmetric] sorted_wrt_map)
qed

lemma mset_filter_partition: "mset (filter P xs @ filter (\<lambda>x. \<not> P x) xs) = mset xs"
  by (induction xs) simp_all

lemma mcq_choices_eq:
  assumes "MultipleChoiceProblem_init idc tsk problemid content translations = Inr p"
  shows "choices p = filter valid (indexed_choices 0 (declared_choices content))
                   @ filter (\<lambda>c. \<not> valid c) (indexed_choices 0 (declared_choices content))"
proof -
  from assms obtain cs good bad where
    cs: "map_of content ''choices'' = Some (PList cs)" and
    en: "enumerate_choices problemid 0 cs [] [] = Inr (good, bad)" and
    ch: "choices p = good @ bad"
    by (rule MultipleChoiceProblem_init_Inr)
  from enumerate_choices_Inr [OF en] ch cs show ?thesis by (simp add: declared_choices_eq)
qed

lemma good_choices_valid:
  assumes "enumerate_choices problemid 0 cs [] [] = Inr (good, bad)"
  shows "filter valid (good @ bad) = good"
proof -
  from enumerate_choices_Inr [OF assms]
  have "good = filter valid (indexed_choices 0 cs)" "bad = filter (\<lambda>d. \<not> valid d) (indexed_choices 0 cs)"
    by simp_all
  then have "filter valid good = good" "filter valid bad = []" by auto
  then show ?thesis by simp
qed

lemma id_checker_q1: "id_checker ''q1''"
  by (simp add: id_checker_def is_digit_def)

lemma spec_problem_built:
  assumes "0 \<le> lim" "\<not> multi \<or> lim = 0 \<or> 2 \<le> lim"
  shows "MultipleChoiceProblem_init id_checker example_task ''q1'' (spec_content multi lim) Map.empty
           = Inr (spec_problem multi lim)"
  using assms
  by (auto simp: MultipleChoiceProblem_init_def BasicProblem_init_def id_checker_q1 spec_content_def
      spec_problem_def parse_choice_def check_limit_def dict_has_def dict_get_def
      basic_problem.defs multiple_choice_attrs.defs)

lemma shuffled_problem_built:
  "MultipleChoiceProblem_init id_checker example_task ''q1'' shuffled_content Map.empty
     = Inr shuffled_problem"
  by (simp add: MultipleChoiceProblem_init_def BasicProblem_init_def id_checker_q1 shuffled_content_def
      shuffled_problem_def parse_choice_def check_limit_def dict_has_def dict_get_def
      basic_problem.defs multiple_choice_attrs.defs)

lemma shuffled_state_built:
  "MultipleChoiceProblem_new id_checker example_task ''q1'' shuffled_content Map.empty []
     = Inr shuffled_state"
  by (simp add: MultipleChoiceProblem_new_def BasicProblem_init_def id_checker_q1 shuffled_content_def
      shuffled_state_def parse_choice_def check_limit_def dict_has_def dict_get_def
      basic_problem.defs multiple_choice_attrs.defs)

subsection \<open>The methods on the heap\<close>

lemma view_fields:
  "choices (view s) = map (\<lambda>entry. heap s ! entry) (choices (obj s))"
  "multiple (view s) = multiple (obj s)"
  "centralize (view s) = centralize (obj s)"
  "error_message (view s) = error_message (obj s)"
  "success_message (view s) = success_message (obj s)"
  "limit (view s) = limit (obj s)"
  "id' (view s) = id' (obj s)"
  "translations' (view s) = translations' (obj s)"
  by (simp_all add: view_def basic_problem.defs multiple_choice_attrs.defs)

lemma get_id_view: "get_id (view s) = get_id (obj s)"
  by (simp add: get_id_def view_fields)

lemma gettext_view: "gettext (view s) language msg = gettext (obj s) language msg"
  by (simp add: gettext_def view_fields)

lemma get_choice_loop_member: "get_choice_loop s entries idx = Some entry \<Longrightarrow> entry \<in> set entries"
  by (induction entries) (auto split: if_splits)

lemma get_choice_loop_find:
  "map_option (\<lambda>entry. heap s ! entry) (get_choice_loop s entries idx)
     = find (\<lambda>c. index c = idx) (map (\<lambda>entry. heap s ! entry) entries)"
  by (induction entries) simp_all

lemma method_get_choice_with_index_view:
  "map_option (\<lambda>entry. heap s ! entry) (fst (method_get_choice_with_index s idx))
     = get_choice_with_index (view s) idx"
  by (simp add: method_get_choice_with_index_def get_choice_with_index_def view_fields
      get_choice_loop_find)

lemma method_get_choice_with_index_state: "snd (method_get_choice_with_index s idx) = s"
  by (simp add: method_get_choice_with_index_def)

lemma method_get_choice_with_index_cases:
  obtains "method_get_choice_with_index s idx = (None, s)" "get_choice_with_index (view s) idx = None"
  | entry where "method_get_choice_with_index s idx = (Some entry, s)"
      "get_choice_with_index (view s) idx = Some (heap s ! entry)"
      "entry \<in> set (choices (obj s))"
proof (cases "get_choice_loop s (choices (obj s)) idx")
  case None
  then have "method_get_choice_with_index s idx = (None, s)"
    by (simp add: method_get_choice_with_index_def)
  moreover from this have "get_choice_with_index (view s) idx = None"
    using method_get_choice_with_index_view [of s idx] by simp
  ultimately show ?thesis by (rule that(1))
next
  case (Some entry)
  then have m: "method_get_choice_with_index s idx = (Some entry, s)"
    by (simp add: method_get_choice_with_index_def)
  then have "get_choice_with_index (view s) idx = Some (heap s ! entry)"
    using method_get_choice_with_index_view [of s idx] by simp
  moreover from Some have "entry \<in> set (choices (obj s))" by (rule get_choice_loop_member)
  ultimately show ?thesis using m by (intro that(2))
qed

lemma method_entries_consistent_view:
  "method_entries_consistent s entries = (entries_consistent (view s) entries, s)"
proof (induction entries)
  case Nil
  show ?case by simp
next
  case (Cons entry entries)
  show ?case
  proof (cases "py_int entry")
    case (Inl e)
    then show ?thesis by (cases e) simp_all
  next
    case (Inr i)
    show ?thesis
      by (rule method_get_choice_with_index_cases [of s i]) (simp_all add: Inr Cons.IH)
  qed
qed

lemma method_input_is_consistent_view:
  "method_input_is_consistent s task_input
     = (MultipleChoiceProblem_input_is_consistent (view s) task_input, s)"
proof (cases "map_of task_input (get_id (obj s))")
  case None
  then show ?thesis
    by (simp add: method_input_is_consistent_def MultipleChoiceProblem_input_is_consistent_def get_id_view)
next
  case (Some v)
  show ?thesis
  proof (cases "truthy (multiple (obj s))")
    case True
    with Some show ?thesis
      by (cases v)
         (simp_all add: method_input_is_consistent_def MultipleChoiceProblem_input_is_consistent_def
            get_id_view view_fields method_entries_consistent_view)
  next
    case False
    show ?thesis
    proof (cases "py_int v")
      case (Inl e)
      with Some False show ?thesis
        by (cases e)
           (simp_all add: method_input_is_consistent_def MultipleChoiceProblem_input_is_consistent_def
              get_id_view view_fields)
    next
      case (Inr i)
      show ?thesis
        by (rule method_get_choice_with_index_cases [of s i])
           (simp_all add: Some False Inr method_input_is_consistent_def
              MultipleChoiceProblem_input_is_consistent_def get_id_view view_fields)
    qed
  qed
qed

lemma method_collect_feedback_view:
  "method_collect_feedback s language entries msgs
     = (collect_feedback (view s) language entries msgs, s)"
proof (induction entries arbitrary: msgs)
  case Nil
  show ?case by simp
next
  case (Cons i entries)
  show ?case
  proof (cases "py_int i")
    case (Inl e)
    then show ?thesis by simp
  next
    case (Inr k)
    show ?thesis
      by (rule method_get_choice_with_index_cases [of s k]) (simp_all add: Inr Cons.IH gettext_view)
  qed
qed

lemma method_check_answer_view:
  "method_check_answer s task_input language
     = (MultipleChoiceProblem_check_answer (view s) task_input language, s)"
proof (cases "map_of task_input (get_id (obj s))")
  case None
  then show ?thesis
    by (simp add: method_check_answer_def MultipleChoiceProblem_check_answer_def get_id_view)
next
  case (Some x)
  show ?thesis
  proof (cases "truthy (multiple (obj s))")
    case True
    with Some show ?thesis
      by (simp add: method_check_answer_def MultipleChoiceProblem_check_answer_def get_id_view
          view_fields method_collect_feedback_view split: sum.splits prod.splits)
  next
    case False
    show ?thesis
    proof (cases "py_int x")
      case (Inl e)
      with Some False show ?thesis
        by (simp add: method_check_answer_def MultipleChoiceProblem_check_answer_def get_id_view
            view_fields)
    next
      case (Inr k)
      show ?thesis
        by (rule method_get_choice_with_index_cases [of s k])
           (simp_all add: Some False Inr method_check_answer_def
              MultipleChoiceProblem_check_answer_def get_id_view view_fields gettext_view)
    qed
  qed
qed

lemma call_state: "snd (call c s) = s"
  by (cases c)
     (simp_all add: method_get_choice_with_index_def method_input_is_consistent_view
        method_check_answer_view split: sum.splits)

lemma run_state: "run calls s = s"
  by (induction calls) (simp_all add: call_state)

lemma enumerate_alloc_Inr:
  assumes "enumerate_alloc problemid i cs good bad h = Inr (good', bad', h')"
    and "\<forall>entry\<in>set good \<union> set bad. entry < length h"
  shows "enumerate_choices problemid i cs (map (\<lambda>entry. h ! entry) good) (map (\<lambda>entry. h ! entry) bad)
           = Inr (map (\<lambda>entry. h' ! entry) good', map (\<lambda>entry. h' ! entry) bad')"
  using assms
proof (induction cs arbitrary: i good bad h)
  case Nil
  then show ?case by simp
next
  case (Cons c cs)
  from Cons.prems(1) obtain data where d: "parse_choice problemid i c = Inr data"
    by (cases "parse_choice problemid i c") simp_all
  let ?h = "h @ [data]"
  from Cons.prems(2) have old: "map (\<lambda>entry. ?h ! entry) good = map (\<lambda>entry. h ! entry) good"
    "map (\<lambda>entry. ?h ! entry) bad = map (\<lambda>entry. h ! entry) bad"
    by (simp_all add: nth_append)
  show ?case
  proof (cases "valid data")
    case True
    with Cons.prems(1) d
    have a: "enumerate_alloc problemid (Suc i) cs (good @ [length h]) bad ?h = Inr (good', bad', h')"
      by simp
    from Cons.prems(2) have "\<forall>entry\<in>set (good @ [length h]) \<union> set bad. entry < length ?h"
      by (auto simp: less_Suc_eq)
    from Cons.IH [OF a this] old d True show ?thesis by simp
  next
    case False
    with Cons.prems(1) d
    have a: "enumerate_alloc problemid (Suc i) cs good (bad @ [length h]) ?h = Inr (good', bad', h')"
      by simp
    from Cons.prems(2) have "\<forall>entry\<in>set good \<union> set (bad @ [length h]). entry < length ?h"
      by (auto simp: less_Suc_eq)
    from Cons.IH [OF a this] old d False show ?thesis by simp
  qed
qed

lemma enumerate_alloc_succeeds:
  "enumerate_choices problemid i cs good bad = Inr r \<Longrightarrow>
     \<exists>g b h'. enumerate_alloc problemid i cs good_refs bad_refs h = Inr (g, b, h')"
proof (induction cs arbitrary: i good bad good_refs bad_refs h)
  case Nil
  show ?case by simp
next
  case (Cons c cs)
  from Cons.prems obtain data where d: "parse_choice problemid i c = Inr data"
    by (cases "parse_choice problemid i c") simp_all
  show ?case
  proof (cases "valid data")
    case True
    with Cons.prems d have "enumerate_choices problemid (Suc i) cs (good @ [data]) bad = Inr r" by simp
    from Cons.IH [OF this] d True show ?thesis by simp
  next
    case False
    with Cons.prems d have "enumerate_choices problemid (Suc i) cs good (bad @ [data]) = Inr r" by simp
    from Cons.IH [OF this] d False show ?thesis by simp
  qed
qed

lemma MultipleChoiceProblem_new_view:
  assumes "MultipleChoiceProblem_new idc tsk problemid content translations h = Inr s"
  shows "MultipleChoiceProblem_init idc tsk problemid content translations = Inr (view s)"
proof -
  from assms obtain b cs good bad h' lim where
    b: "BasicProblem_init idc tsk problemid content translations = Inr b"
    and cs: "map_of content ''choices'' = Some (PList cs)"
    and en: "enumerate_alloc problemid 0 cs [] [] h = Inr (good, bad, h')"
    and g: "good \<noteq> []"
    and l: "check_limit problemid content (dict_get content ''multiple'' (PBool False)) (length good) = Inr lim"
    and s: "s = \<lparr> obj = basic_problem.extend b
                    (multiple_choice_attrs.fields
                       (dict_get content ''multiple'' (PBool False)) lim
                       (dict_get content ''centralize'' (PBool False))
                       (dict_get content ''error_message'' PNone)
                       (dict_get content ''success_message'' PNone)
                       (good @ bad)),
                  heap = h' \<rparr>"
    by (auto simp: MultipleChoiceProblem_new_def
        split: sum.splits option.splits pyval.splits if_splits prod.splits)
  from enumerate_alloc_Inr [OF en]
  have "enumerate_choices problemid 0 cs [] []
          = Inr (map (\<lambda>entry. h' ! entry) good, map (\<lambda>entry. h' ! entry) bad)"
    by simp
  with b cs g l show ?thesis
    by (simp add: MultipleChoiceProblem_init_def s view_def basic_problem.defs
        multiple_choice_attrs.defs)
qed

lemma MultipleChoiceProblem_new_succeeds:
  assumes "MultipleChoiceProblem_init idc tsk problemid content translations = Inr p"
  shows "\<exists>s. MultipleChoiceProblem_new idc tsk problemid content translations h = Inr s"
proof -
  from assms obtain cs good bad lim where
    i: "idc problemid"
    and cs: "map_of content ''choices'' = Some (PList cs)"
    and en: "enumerate_choices problemid 0 cs [] [] = Inr (good, bad)"
    and g: "good \<noteq> []"
    and l: "check_limit problemid content (dict_get content ''multiple'' (PBool False)) (length good) = Inr lim"
    by (rule MultipleChoiceProblem_init_Inr)
  from enumerate_alloc_succeeds [OF en, of "[]" "[]" h]
  obtain gr br h' where a: "enumerate_alloc problemid 0 cs [] [] h = Inr (gr, br, h')" by blast
  from enumerate_alloc_Inr [OF a] en have "good = map (\<lambda>entry. h' ! entry) gr" by simp
  with g have "length gr = length good" "gr \<noteq> []" by auto
  with i cs a l show ?thesis
    by (simp add: MultipleChoiceProblem_new_def BasicProblem_init_def)
qed

lemma enumerate_alloc_bound:
  assumes "enumerate_alloc problemid i cs good bad h = Inr (good', bad', h')"
    and "\<forall>entry\<in>set good \<union> set bad. entry < length h"
  shows "\<forall>entry\<in>set good' \<union> set bad'. entry < length h'"
  using assms
proof (induction cs arbitrary: i good bad h)
  case Nil
  then show ?case by simp
next
  case (Cons c cs)
  from Cons.prems(1) obtain data where d: "parse_choice problemid i c = Inr data"
    by (cases "parse_choice problemid i c") simp_all
  let ?h = "h @ [data]"
  show ?case
  proof (cases "valid data")
    case True
    with Cons.prems(1) d
    have a: "enumerate_alloc problemid (Suc i) cs (good @ [length h]) bad ?h = Inr (good', bad', h')"
      by simp
    from Cons.prems(2) have "\<forall>entry\<in>set (good @ [length h]) \<union> set bad. entry < length ?h"
      by (auto simp: less_Suc_eq)
    with a show ?thesis by (rule Cons.IH)
  next
    case False
    with Cons.prems(1) d
    have a: "enumerate_alloc problemid (Suc i) cs good (bad @ [length h]) ?h = Inr (good', bad', h')"
      by simp
    from Cons.prems(2) have "\<forall>entry\<in>set good \<union> set (bad @ [length h]). entry < length ?h"
      by (auto simp: less_Suc_eq)
    with a show ?thesis by (rule Cons.IH)
  qed
qed

lemma MultipleChoiceProblem_new_bound:
  assumes "MultipleChoiceProblem_new idc tsk problemid content translations h = Inr s"
  shows "\<forall>entry\<in>set (choices (obj s)). entry < length (heap s)"
proof -
  from assms obtain b cs good bad h' lim where
    en: "enumerate_alloc problemid 0 cs [] [] h = Inr (good, bad, h')"
    and s: "s = \<lparr> obj = basic_problem.extend b
                    (multiple_choice_attrs.fields
                       (dict_get content ''multiple'' (PBool False)) lim
                       (dict_get content ''centralize'' (PBool False))
                       (dict_get content ''error_message'' PNone)
                       (dict_get content ''success_message'' PNone)
                       (good @ bad)),
                  heap = h' \<rparr>"
    by (auto simp: MultipleChoiceProblem_new_def
        split: sum.splits option.splits pyval.splits if_splits prod.splits)
  from enumerate_alloc_bound [OF en] have "\<forall>entry\<in>set good \<union> set bad. entry < length h'"
    by simp
  then show ?thesis
    by (auto simp: s basic_problem.defs multiple_choice_attrs.defs)
qed

text \<open>
  Claim C5. A descriptor in which no declared choice carries a true validity flag (an empty
  list of choices included) is refused by the constructor, and a problem that the constructor
  returns has at least one valid choice.
\<close>

theorem mcq_no_valid_choice:
  "((\<forall>c\<in>set (declared_choices content). \<not> declared_valid c) \<longrightarrow>
      (\<exists>e. MultipleChoiceProblem_init idc tsk problemid content translations = Inl e))
   \<and> (\<forall>p. MultipleChoiceProblem_init idc tsk problemid content translations = Inr p \<longrightarrow>
         (\<exists>c\<in>set (choices p). valid c))"
proof (intro conjI impI allI)
  assume nv: "\<forall>c\<in>set (declared_choices content). \<not> declared_valid c"
  show "\<exists>e. MultipleChoiceProblem_init idc tsk problemid content translations = Inl e"
  proof (cases "MultipleChoiceProblem_init idc tsk problemid content translations")
    case (Inl e)
    then show ?thesis by blast
  next
    case (Inr p)
    then obtain cs good bad where
      cs: "map_of content ''choices'' = Some (PList cs)" and
      en: "enumerate_choices problemid 0 cs [] [] = Inr (good, bad)" and
      g: "good \<noteq> []"
      by (rule MultipleChoiceProblem_init_Inr)
    from nv cs have "\<forall>c\<in>set cs. \<not> declared_valid c" by (simp add: declared_choices_eq)
    from enumerate_choices_no_valid [OF this en] g show ?thesis by simp
  qed
next
  fix p assume "MultipleChoiceProblem_init idc tsk problemid content translations = Inr p"
  then obtain cs good bad where
    en: "enumerate_choices problemid 0 cs [] [] = Inr (good, bad)" and
    g: "good \<noteq> []" and ch: "choices p = good @ bad"
    by (rule MultipleChoiceProblem_init_Inr)
  from enumerate_choices_Inr [OF en] have "good = filter valid (indexed_choices 0 cs)" by simp
  moreover from g have "hd good \<in> set good" by simp
  ultimately have "hd good \<in> set good" "valid (hd good)" by simp_all
  with ch show "\<exists>c\<in>set (choices p). valid c" by auto
qed

theorem mcq_no_valid_choice_witness:
  "map declared_valid (declared_choices no_valid_content) = [False, False]
   \<and> (\<exists>e. MultipleChoiceProblem_init id_checker example_task ''q1'' no_valid_content Map.empty = Inl e)
   \<and> MultipleChoiceProblem_init id_checker example_task ''q1'' (spec_content True 0) Map.empty
        = Inr (spec_problem True 0)
   \<and> (\<exists>c\<in>set (choices (spec_problem True 0)). valid c)"
proof -
  have h: "\<forall>c\<in>set (declared_choices no_valid_content). \<not> declared_valid c"
    by (simp add: declared_choices_def no_valid_content_def declared_valid_def dict_get_def)
  have b: "MultipleChoiceProblem_init id_checker example_task ''q1'' (spec_content True 0) Map.empty
        = Inr (spec_problem True 0)"
    by (simp add: spec_problem_built)
  have d: "map declared_valid (declared_choices no_valid_content) = [False, False]"
    by (simp add: declared_choices_def no_valid_content_def declared_valid_def dict_get_def)
  from h b d show ?thesis
    using mcq_no_valid_choice [of no_valid_content id_checker example_task "''q1''" Map.empty]
      mcq_no_valid_choice [of "spec_content True 0" id_checker example_task "''q1''" Map.empty]
    by blast
qed

text \<open>
  Claim C6. The stored choices of a constructed problem are a permutation of the declared
  ones; all valid choices come before all invalid ones; every stored choice is the declared
  choice at the position its index names; and inside each of the two groups the declaration
  order is kept. With the dicts on a heap, the constructor returns a state whose view is
  that problem and whose addresses all lie in the heap, and no method changes the state: after any call, and after any sequence of
  calls, the attributes and the heap are the same, so the order of the choices and the
  index, text, feedback and validity of each are those of construction. The entry that
  \<^verbatim>\<open>get_choice_with_index\<close> returns is an address held in \<^verbatim>\<open>_choices\<close>, and the results of
  \<^verbatim>\<open>input_is_consistent\<close> and \<^verbatim>\<open>check_answer\<close> on the state are those computed on the view.
\<close>

theorem mcq_choices_order:
  assumes "MultipleChoiceProblem_init idc tsk problemid content translations = Inr p"
  shows "mset (choices p) = mset (indexed_choices 0 (declared_choices content))
    \<and> (\<exists>k\<le>length (choices p). \<forall>j<length (choices p). valid (choices p ! j) \<longleftrightarrow> j < k)
    \<and> (\<forall>c\<in>set (choices p). 0 \<le> index c \<and> nat (index c) < length (declared_choices content)
          \<and> c = declared_choice (nat (index c)) (declared_choices content ! nat (index c)))
    \<and> sorted_wrt (<) (map index (filter valid (choices p)))
    \<and> sorted_wrt (<) (map index (filter (\<lambda>c. \<not> valid c) (choices p)))
    \<and> (\<forall>h. \<exists>s. MultipleChoiceProblem_new idc tsk problemid content translations h = Inr s)
    \<and> (\<forall>h s. MultipleChoiceProblem_new idc tsk problemid content translations h = Inr s \<longrightarrow>
          view s = p
          \<and> (\<forall>entry\<in>set (choices (obj s)). entry < length (heap s))
          \<and> (\<forall>c. snd (call c s) = s)
          \<and> (\<forall>calls. run calls s = s \<and> view (run calls s) = p)
          \<and> (\<forall>idx entry. fst (method_get_choice_with_index s idx) = Some entry \<longrightarrow>
                entry \<in> set (choices (obj s)) \<and> get_choice_with_index p idx = Some (heap s ! entry))
          \<and> (\<forall>task_input. method_input_is_consistent s task_input
                = (MultipleChoiceProblem_input_is_consistent p task_input, s))
          \<and> (\<forall>task_input language. method_check_answer s task_input language
                = (MultipleChoiceProblem_check_answer p task_input language, s)))"
proof -
  let ?ics = "indexed_choices 0 (declared_choices content)"
  let ?good = "filter valid ?ics"
  let ?bad = "filter (\<lambda>c. \<not> valid c) ?ics"
  have ch: "choices p = ?good @ ?bad" using assms by (rule mcq_choices_eq)
  have perm: "mset (choices p) = mset ?ics"
    by (simp only: ch mset_filter_partition)
  have split: "\<exists>k\<le>length (choices p). \<forall>j<length (choices p). valid (choices p ! j) \<longleftrightarrow> j < k"
  proof (intro exI [of _ "length ?good"] conjI allI impI)
    show "length ?good \<le> length (choices p)" by (simp add: ch)
  next
    fix j assume j: "j < length (choices p)"
    show "valid (choices p ! j) \<longleftrightarrow> j < length ?good"
    proof (cases "j < length ?good")
      case True
      then have "?good ! j \<in> set ?good" by (rule nth_mem)
      then have "valid (?good ! j)" by simp
      with True show ?thesis by (simp add: ch nth_append)
    next
      case False
      with j have "j - length ?good < length ?bad" by (simp add: ch)
      then have "?bad ! (j - length ?good) \<in> set ?bad" by (rule nth_mem)
      then have "\<not> valid (?bad ! (j - length ?good))" by simp
      with False show ?thesis by (simp add: ch nth_append)
    qed
  qed
  have pos: "\<forall>c\<in>set (choices p). 0 \<le> index c \<and> nat (index c) < length (declared_choices content)
          \<and> c = declared_choice (nat (index c)) (declared_choices content ! nat (index c))"
  proof
    fix c assume "c \<in> set (choices p)"
    then have "c \<in> set ?ics" by (auto simp: ch)
    then obtain j where j: "j < length (declared_choices content)" and c: "c = ?ics ! j"
      by (auto simp: in_set_conv_nth)
    from j c have "c = declared_choice j (declared_choices content ! j)"
      by (simp add: nth_indexed_choices)
    moreover from this have "index c = int j" by simp
    ultimately show "0 \<le> index c \<and> nat (index c) < length (declared_choices content)
          \<and> c = declared_choice (nat (index c)) (declared_choices content ! nat (index c))"
      using j by simp
  qed
  have fg: "filter valid (choices p) = ?good" and fb: "filter (\<lambda>c. \<not> valid c) (choices p) = ?bad"
    by (simp_all add: ch)
  have s: "sorted_wrt (\<lambda>a b. index a < index b) ?ics" by (rule sorted_index_indexed_choices)
  have sg: "sorted_wrt (<) (map index (filter valid (choices p)))"
    unfolding fg using s by (simp add: sorted_wrt_map sorted_wrt_filter)
  have sb: "sorted_wrt (<) (map index (filter (\<lambda>c. \<not> valid c) (choices p)))"
    unfolding fb using s by (simp add: sorted_wrt_map sorted_wrt_filter)
  have new: "\<forall>h. \<exists>s. MultipleChoiceProblem_new idc tsk problemid content translations h = Inr s"
    using MultipleChoiceProblem_new_succeeds [OF assms] by blast
  have obj: "\<forall>h s. MultipleChoiceProblem_new idc tsk problemid content translations h = Inr s \<longrightarrow>
          view s = p
          \<and> (\<forall>entry\<in>set (choices (obj s)). entry < length (heap s))
          \<and> (\<forall>c. snd (call c s) = s)
          \<and> (\<forall>calls. run calls s = s \<and> view (run calls s) = p)
          \<and> (\<forall>idx entry. fst (method_get_choice_with_index s idx) = Some entry \<longrightarrow>
                entry \<in> set (choices (obj s)) \<and> get_choice_with_index p idx = Some (heap s ! entry))
          \<and> (\<forall>task_input. method_input_is_consistent s task_input
                = (MultipleChoiceProblem_input_is_consistent p task_input, s))
          \<and> (\<forall>task_input language. method_check_answer s task_input language
                = (MultipleChoiceProblem_check_answer p task_input language, s))"
  proof (intro allI impI)
    fix h s assume n: "MultipleChoiceProblem_new idc tsk problemid content translations h = Inr s"
    then have wf: "\<forall>entry\<in>set (choices (obj s)). entry < length (heap s)"
      by (rule MultipleChoiceProblem_new_bound)
    from n have "MultipleChoiceProblem_init idc tsk problemid content translations = Inr (view s)"
      by (rule MultipleChoiceProblem_new_view)
    with assms have v: "view s = p" by simp
    have al: "\<forall>idx entry. fst (method_get_choice_with_index s idx) = Some entry \<longrightarrow>
                entry \<in> set (choices (obj s)) \<and> get_choice_with_index p idx = Some (heap s ! entry)"
    proof (intro allI impI)
      fix idx entry assume e: "fst (method_get_choice_with_index s idx) = Some entry"
      show "entry \<in> set (choices (obj s)) \<and> get_choice_with_index p idx = Some (heap s ! entry)"
        by (rule method_get_choice_with_index_cases [of s idx]) (use e v in simp_all)
    qed
    from v al wf show "view s = p
          \<and> (\<forall>entry\<in>set (choices (obj s)). entry < length (heap s))
          \<and> (\<forall>c. snd (call c s) = s)
          \<and> (\<forall>calls. run calls s = s \<and> view (run calls s) = p)
          \<and> (\<forall>idx entry. fst (method_get_choice_with_index s idx) = Some entry \<longrightarrow>
                entry \<in> set (choices (obj s)) \<and> get_choice_with_index p idx = Some (heap s ! entry))
          \<and> (\<forall>task_input. method_input_is_consistent s task_input
                = (MultipleChoiceProblem_input_is_consistent p task_input, s))
          \<and> (\<forall>task_input language. method_check_answer s task_input language
                = (MultipleChoiceProblem_check_answer p task_input language, s))"
      by (simp add: call_state run_state method_input_is_consistent_view method_check_answer_view)
  qed
  from perm split pos sg sb new obj show ?thesis by (intro conjI)
qed

theorem mcq_choices_order_witness:
  "MultipleChoiceProblem_init id_checker example_task ''q1'' shuffled_content Map.empty
     = Inr shuffled_problem
   \<and> map index (choices shuffled_problem) = [1, 3, 0, 2]
   \<and> map valid (choices shuffled_problem) = [True, True, False, False]
   \<and> mset (choices shuffled_problem) = mset (indexed_choices 0 (declared_choices shuffled_content))
   \<and> sorted_wrt (<) (map index (filter valid (choices shuffled_problem)))
   \<and> sorted_wrt (<) (map index (filter (\<lambda>c. \<not> valid c) (choices shuffled_problem)))
   \<and> MultipleChoiceProblem_new id_checker example_task ''q1'' shuffled_content Map.empty []
        = Inr shuffled_state
   \<and> view shuffled_state = shuffled_problem
   \<and> length (heap shuffled_state) = 4
   \<and> fst (method_get_choice_with_index shuffled_state 3) = Some 3
   \<and> get_choice_with_index shuffled_problem 3 = Some (heap shuffled_state ! 3)
   \<and> run [Get_choice_with_index 3, Input_is_consistent [(''q1'', PStr ''2'')],
           Check_answer [(''q1'', PStr ''2'')] ''en'', Get_name ''en'', Get_original_content]
        shuffled_state = shuffled_state
   \<and> method_check_answer shuffled_state [(''q1'', PStr ''2'')] ''en''
        = (MultipleChoiceProblem_check_answer shuffled_problem [(''q1'', PStr ''2'')] ''en'',
           shuffled_state)"
proof -
  note t = mcq_choices_order [OF shuffled_problem_built]
  have m: "mset (choices shuffled_problem) = mset (indexed_choices 0 (declared_choices shuffled_content))"
    using t by (rule conjunct1)
  have s: "sorted_wrt (<) (map index (filter valid (choices shuffled_problem)))
     \<and> sorted_wrt (<) (map index (filter (\<lambda>c. \<not> valid c) (choices shuffled_problem)))"
    using t by blast
  have i: "map index (choices shuffled_problem) = [1, 3, 0, 2]"
    and v: "map valid (choices shuffled_problem) = [True, True, False, False]"
    by (simp_all add: shuffled_problem_def)
  from t shuffled_state_built have o: "view shuffled_state = shuffled_problem
      \<and> (\<forall>calls. run calls shuffled_state = shuffled_state \<and> view (run calls shuffled_state) = shuffled_problem)
      \<and> (\<forall>idx entry. fst (method_get_choice_with_index shuffled_state idx) = Some entry \<longrightarrow>
            entry \<in> set (choices (obj shuffled_state))
            \<and> get_choice_with_index shuffled_problem idx = Some (heap shuffled_state ! entry))
      \<and> (\<forall>task_input language. method_check_answer shuffled_state task_input language
            = (MultipleChoiceProblem_check_answer shuffled_problem task_input language, shuffled_state))"
    by blast
  have g: "fst (method_get_choice_with_index shuffled_state 3) = Some 3"
    by (simp add: method_get_choice_with_index_def shuffled_state_def)
  with o have a: "get_choice_with_index shuffled_problem 3 = Some (heap shuffled_state ! 3)" by blast
  have l: "length (heap shuffled_state) = 4" by (simp add: shuffled_state_def)
  from shuffled_problem_built i v m s shuffled_state_built o g a l show ?thesis
    by (intro conjI) blast+
qed

subsection \<open>The selection limit\<close>

lemma map_of_without_limit:
  "map_of (without_limit content) k = (if k = ''limit'' then None else map_of content k)"
  unfolding without_limit_def by (induction content) auto

lemma dict_get_without_limit:
  "k \<noteq> ''limit'' \<Longrightarrow> dict_get (without_limit content) k dflt = dict_get content k dflt"
  by (simp add: dict_get_def map_of_without_limit)

lemma check_limit_without_limit:
  "check_limit problemid (without_limit content) multi n = Inr (PInt 0)"
  by (simp add: check_limit_def dict_has_def map_of_without_limit)

lemma check_limit_declared:
  assumes "map_of content ''limit'' = Some lim"
  shows "(\<exists>l. check_limit problemid content multi n = Inr l) \<longleftrightarrow>
           isinstance_int lim \<and> 0 \<le> int_value lim \<and>
           (truthy multi \<longrightarrow> int_value lim = 0 \<or> int n \<le> int_value lim)"
  using assms by (auto simp: check_limit_def dict_has_def dict_get_def)

lemma spec_problem_without_limit_built:
  "MultipleChoiceProblem_init id_checker example_task ''q1'' (without_limit (spec_content multi lim)) Map.empty
     = Inr ((spec_problem multi 0)\<lparr>original_content := without_limit (spec_content multi lim)\<rparr>)"
  by (simp add: MultipleChoiceProblem_init_def BasicProblem_init_def id_checker_q1 spec_content_def
      spec_problem_def parse_choice_def check_limit_def dict_has_def dict_get_def without_limit_def
      basic_problem.defs multiple_choice_attrs.defs)

text \<open>
  Claim C4. For a descriptor that declares a limit, the constructor succeeds exactly when the
  descriptor is accepted without the limit and the limit is an integer, zero or positive,
  and, for a multi-select problem, zero or at least the number of valid choices.
\<close>

theorem mcq_limit:
  assumes "map_of content ''limit'' = Some lim"
  shows "(\<exists>p. MultipleChoiceProblem_init idc tsk problemid content translations = Inr p) \<longleftrightarrow>
     (\<exists>p0. MultipleChoiceProblem_init idc tsk problemid (without_limit content) translations = Inr p0 \<and>
        isinstance_int lim \<and> 0 \<le> int_value lim \<and>
        (truthy (multiple p0) \<longrightarrow>
           int_value lim = 0 \<or> int (length (filter valid (choices p0))) \<le> int_value lim))"
  (is "?L \<longleftrightarrow> ?R")
proof
  assume ?L
  then obtain cs good bad l where ok: "idc problemid" "map_of content ''choices'' = Some (PList cs)"
    "enumerate_choices problemid 0 cs [] [] = Inr (good, bad)" "good \<noteq> []"
    and lim: "check_limit problemid content (dict_get content ''multiple'' (PBool False)) (length good) = Inr l"
    unfolding MultipleChoiceProblem_init_succeeds_iff by blast
  from ok have "\<exists>p0. MultipleChoiceProblem_init idc tsk problemid (without_limit content) translations = Inr p0"
    unfolding MultipleChoiceProblem_init_succeeds_iff
    by (simp add: map_of_without_limit check_limit_without_limit)
  then obtain p0 where p0: "MultipleChoiceProblem_init idc tsk problemid (without_limit content) translations = Inr p0" ..
  then obtain cs' good' bad' where
    "map_of (without_limit content) ''choices'' = Some (PList cs')"
    "enumerate_choices problemid 0 cs' [] [] = Inr (good', bad')"
    "multiple p0 = dict_get (without_limit content) ''multiple'' (PBool False)"
    "choices p0 = good' @ bad'"
    by (rule MultipleChoiceProblem_init_Inr)
  with ok have m: "multiple p0 = dict_get content ''multiple'' (PBool False)"
    and c: "choices p0 = good @ bad"
    by (simp_all add: map_of_without_limit dict_get_without_limit)
  have "filter valid (choices p0) = good" by (simp only: c good_choices_valid [OF ok(3)])
  with lim m check_limit_declared [OF assms, of problemid "multiple p0" "length good"] p0
  show ?R by auto
next
  assume ?R
  then obtain p0 where p0: "MultipleChoiceProblem_init idc tsk problemid (without_limit content) translations = Inr p0"
    and c: "isinstance_int lim" "0 \<le> int_value lim"
      "truthy (multiple p0) \<longrightarrow> int_value lim = 0 \<or> int (length (filter valid (choices p0))) \<le> int_value lim"
    by blast
  from p0 obtain cs good bad where
    ok: "idc problemid" "map_of (without_limit content) ''choices'' = Some (PList cs)"
    "enumerate_choices problemid 0 cs [] [] = Inr (good, bad)" "good \<noteq> []"
    and m: "multiple p0 = dict_get (without_limit content) ''multiple'' (PBool False)"
    and ch: "choices p0 = good @ bad"
    by (rule MultipleChoiceProblem_init_Inr)
  have g: "filter valid (choices p0) = good" by (simp only: ch good_choices_valid [OF ok(3)])
  from m have m': "multiple p0 = dict_get content ''multiple'' (PBool False)"
    by (simp add: dict_get_without_limit)
  from c g have "\<exists>l. check_limit problemid content (multiple p0) (length good) = Inr l"
    using check_limit_declared [OF assms, of problemid "multiple p0" "length good"] by simp
  with ok m' show ?L
    unfolding MultipleChoiceProblem_init_succeeds_iff
    by (auto simp: map_of_without_limit split: if_splits)
qed

theorem mcq_limit_witness:
  "map_of (spec_content True 1) ''limit'' = Some (PInt 1)
   \<and> \<not> (\<exists>p. MultipleChoiceProblem_init id_checker example_task ''q1'' (spec_content True 1) Map.empty = Inr p)
   \<and> map_of (spec_content False 1) ''limit'' = Some (PInt 1)
   \<and> (\<exists>p. MultipleChoiceProblem_init id_checker example_task ''q1'' (spec_content False 1) Map.empty = Inr p)
   \<and> map_of (spec_content True 2) ''limit'' = Some (PInt 2)
   \<and> (\<exists>p. MultipleChoiceProblem_init id_checker example_task ''q1'' (spec_content True 2) Map.empty = Inr p)"
proof -
  have h: "\<And>multi lim. map_of (spec_content multi lim) ''limit'' = Some (PInt lim)"
    by (simp add: spec_content_def)
  show ?thesis
    using mcq_limit [OF h [of True 1], of id_checker example_task "''q1''" Map.empty]
      mcq_limit [OF h [of False 1], of id_checker example_task "''q1''" Map.empty]
      mcq_limit [OF h [of True 2], of id_checker example_task "''q1''" Map.empty]
    by (simp add: h spec_problem_without_limit_built spec_problem_def)
qed

section \<open>Grading a multiple-choice problem\<close>

lemma is_choice_index_cases:
  "is_choice_index self e \<Longrightarrow> (\<exists>i. e = PInt i) \<or> (\<exists>s. e = PStr s)"
  by (auto simp: is_choice_index_def)

lemma contains_int_entries:
  assumes "\<forall>e\<in>set entries. is_choice_index self e"
  shows "list_ex (eq_int i) entries \<longleftrightarrow> PInt i \<in> set entries"
proof
  assume "list_ex (eq_int i) entries"
  then obtain e where e: "e \<in> set entries" "eq_int i e" by (auto simp: list_ex_iff)
  with assms have "(\<exists>j. e = PInt j) \<or> (\<exists>s. e = PStr s)" by (auto dest: is_choice_index_cases)
  with e show "PInt i \<in> set entries" by auto
next
  assume "PInt i \<in> set entries"
  then show "list_ex (eq_int i) entries" by (force simp: list_ex_iff)
qed

lemma grade_choices_entries:
  assumes "\<forall>e\<in>set entries. is_choice_index self e"
  shows "grade_choices (PList entries) cs ok n =
           Inr (ok \<and> (\<forall>c\<in>set cs. valid c = appears (index c) entries),
                n + int (length (filter (\<lambda>c. valid c \<noteq> appears (index c) entries) cs)))"
proof (induction cs arbitrary: ok n)
  case Nil
  show ?case by simp
next
  case (Cons c cs)
  show ?case
    by (simp add: contains_int_entries [OF assms] Cons.IH appears_def)
qed

lemma get_choice_with_index_member:
  "c \<in> set (choices self) \<Longrightarrow> \<exists>c'. get_choice_with_index self (index c) = Some c'"
  by (cases "get_choice_with_index self (index c)")
     (auto simp: get_choice_with_index_def find_None_iff)

lemma collect_feedback_entries:
  "\<forall>e\<in>set entries. is_choice_index self e \<Longrightarrow>
     \<exists>msgs'. collect_feedback self language entries msgs = Inr msgs'"
proof (induction entries arbitrary: msgs)
  case Nil
  show ?case by simp
next
  case (Cons e entries)
  from Cons.prems obtain c where c: "c \<in> set (choices self)"
    and e: "e = PInt (index c) \<or> e = PStr (str_int (index c))"
    by (auto simp: is_choice_index_def)
  from e have i: "py_int e = Inr (index c)" by (rule py_int_choice_index)
  from c obtain c' where g: "get_choice_with_index self (index c) = Some c'"
    using get_choice_with_index_member by blast
  from Cons.prems have "\<forall>e\<in>set entries. is_choice_index self e" by simp
  from Cons.IH [OF this] i g show ?case by simp
qed

lemma entries_consistent_entries:
  "\<forall>e\<in>set entries. is_choice_index self e \<Longrightarrow> entries_consistent self entries = Inr True"
proof (induction entries)
  case Nil
  show ?case by simp
next
  case (Cons e entries)
  from Cons.prems obtain c where c: "c \<in> set (choices self)"
    and e: "e = PInt (index c) \<or> e = PStr (str_int (index c))"
    by (auto simp: is_choice_index_def)
  from e have i: "py_int e = Inr (index c)" by (rule py_int_choice_index)
  from c obtain c' where g: "get_choice_with_index self (index c) = Some c'"
    using get_choice_with_index_member by blast
  from Cons i g show ?case by simp
qed

lemma compose_result_shape:
  "\<exists>msgs'. compose_result self language ok n msgs = (Some ok, PNone, msgs', if ok then 0 else n)"
  by (simp add: compose_result_def Let_def)

lemma check_answer_entries_returns:
  assumes "truthy (multiple self)"
    and "map_of task_input (get_id self) = Some (PList entries)"
    and "\<forall>e\<in>set entries. is_choice_index self e"
  shows "\<exists>r. MultipleChoiceProblem_check_answer self task_input language = Inr r"
proof -
  obtain msgs where "collect_feedback self language entries [] = Inr msgs"
    using collect_feedback_entries [OF assms(3)] by blast
  with assms(1,2) have "MultipleChoiceProblem_check_answer self task_input language
      = Inr (compose_result self language
               (\<forall>c\<in>set (choices self). valid c = appears (index c) entries)
               (int (length (filter (\<lambda>c. valid c \<noteq> appears (index c) entries) (choices self))))
               msgs)"
    by (simp add: MultipleChoiceProblem_check_answer_def grade_choices_entries [OF assms(3)])
  then show ?thesis by (rule exI)
qed

text \<open>
  Claim C1. For a multi-select problem and a submission that holds a list of choice indices
  under the problem's id, \<^verbatim>\<open>check_answer\<close> returns; the error count is the number of valid
  choices missing from the list plus the number of invalid choices present in it; and the
  answer is correct exactly when that count is 0, that is when every valid choice appears
  (as an integer or as its string) and no invalid one does.
\<close>

theorem mcq_check_answer_multiple:
  assumes "truthy (multiple self)"
    and "map_of task_input (get_id self) = Some (PList entries)"
    and "\<forall>e\<in>set entries. is_choice_index self e"
  shows "\<exists>ok msgs invalid_count.
      MultipleChoiceProblem_check_answer self task_input language = Inr (Some ok, PNone, msgs, invalid_count)
      \<and> invalid_count = int (length (mismatches self entries))
      \<and> (ok \<longleftrightarrow> invalid_count = 0)
      \<and> (ok \<longleftrightarrow> (\<forall>c\<in>set (choices self). if valid c then appears (index c) entries
                                              else \<not> appears (index c) entries))"
proof -
  let ?mis = "filter (\<lambda>c. valid c \<noteq> appears (index c) entries) (choices self)"
  let ?ok = "\<forall>c\<in>set (choices self). valid c = appears (index c) entries"
  have m: "mismatches self entries = ?mis"
    unfolding mismatches_def by (rule filter_cong) auto
  have g: "grade_choices (PList entries) (choices self) True 0 = Inr (?ok, int (length ?mis))"
    by (simp add: grade_choices_entries [OF assms(3)])
  obtain msgs where c: "collect_feedback self language entries [] = Inr msgs"
    using collect_feedback_entries [OF assms(3)] by blast
  obtain msgs' where r: "compose_result self language ?ok (int (length ?mis)) msgs
      = (Some ?ok, PNone, msgs', if ?ok then 0 else int (length ?mis))"
    using compose_result_shape by blast
  have z: "?ok \<longleftrightarrow> ?mis = []"
    by (auto simp: filter_empty_conv)
  have "MultipleChoiceProblem_check_answer self task_input language
          = Inr (Some ?ok, PNone, msgs', int (length ?mis))"
    using assms(1,2) g c r z by (simp add: MultipleChoiceProblem_check_answer_def)
  moreover have "?ok \<longleftrightarrow> int (length ?mis) = 0" using z by simp
  moreover have "?ok \<longleftrightarrow> (\<forall>c\<in>set (choices self). if valid c then appears (index c) entries
                                              else \<not> appears (index c) entries)"
    by auto
  ultimately show ?thesis
    unfolding m
    by (intro exI [of _ ?ok] exI [of _ msgs'] exI [of _ "int (length ?mis)"] conjI)
       (assumption | rule refl)+
qed

theorem mcq_check_answer_multiple_witness:
  "(\<exists>msgs. MultipleChoiceProblem_check_answer (spec_problem True 0)
       [(''q1'', PList [PInt 0, PInt 1])] ''en'' = Inr (Some True, PNone, msgs, 0))
   \<and> (\<exists>msgs. MultipleChoiceProblem_check_answer (spec_problem True 0)
       [(''q1'', PList [PInt 0])] ''en'' = Inr (Some False, PNone, msgs, 1))
   \<and> (\<exists>msgs. MultipleChoiceProblem_check_answer (spec_problem True 0)
       [(''q1'', PList [PInt 0, PStr ''1'', PInt 2])] ''en'' = Inr (Some False, PNone, msgs, 1))"
proof -
  let ?p = "spec_problem True 0"
  have t: "truthy (multiple ?p)" by (simp add: spec_problem_def)
  have k: "\<And>entries. map_of [(''q1'', PList entries)] (get_id ?p) = Some (PList entries)"
    by (simp add: get_id_def spec_problem_def)
  have i1: "\<forall>e\<in>set [PInt 0, PInt 1]. is_choice_index ?p e"
    and i2: "\<forall>e\<in>set [PInt 0]. is_choice_index ?p e"
    and i3: "\<forall>e\<in>set [PInt 0, PStr ''1'', PInt 2]. is_choice_index ?p e"
    by (simp_all add: is_choice_index_def spec_problem_def str_int_digits)
  have m1: "mismatches ?p [PInt 0, PInt 1] = []"
    and m2: "length (mismatches ?p [PInt 0]) = 1"
    and m3: "length (mismatches ?p [PInt 0, PStr ''1'', PInt 2]) = 1"
    by (simp_all add: mismatches_def appears_def spec_problem_def str_int_digits)
  from mcq_check_answer_multiple [OF t k i1, of "''en''"]
  obtain ok1 msgs1 n1 where
    "MultipleChoiceProblem_check_answer ?p [(''q1'', PList [PInt 0, PInt 1])] ''en''
       = Inr (Some ok1, PNone, msgs1, n1)"
    "n1 = int (length (mismatches ?p [PInt 0, PInt 1]))" "ok1 \<longleftrightarrow> n1 = 0"
    by blast
  with m1
  have 1: "\<exists>msgs. MultipleChoiceProblem_check_answer ?p [(''q1'', PList [PInt 0, PInt 1])] ''en''
             = Inr (Some True, PNone, msgs, 0)"
    by simp
  from mcq_check_answer_multiple [OF t k i2, of "''en''"]
  obtain ok2 msgs2 n2 where
    "MultipleChoiceProblem_check_answer ?p [(''q1'', PList [PInt 0])] ''en''
       = Inr (Some ok2, PNone, msgs2, n2)"
    "n2 = int (length (mismatches ?p [PInt 0]))" "ok2 \<longleftrightarrow> n2 = 0"
    by blast
  with m2
  have 2: "\<exists>msgs. MultipleChoiceProblem_check_answer ?p [(''q1'', PList [PInt 0])] ''en''
             = Inr (Some False, PNone, msgs, 1)"
    by simp
  from mcq_check_answer_multiple [OF t k i3, of "''en''"]
  obtain ok3 msgs3 n3 where
    "MultipleChoiceProblem_check_answer ?p [(''q1'', PList [PInt 0, PStr ''1'', PInt 2])] ''en''
       = Inr (Some ok3, PNone, msgs3, n3)"
    "n3 = int (length (mismatches ?p [PInt 0, PStr ''1'', PInt 2]))" "ok3 \<longleftrightarrow> n3 = 0"
    by blast
  with m3
  have 3: "\<exists>msgs. MultipleChoiceProblem_check_answer ?p [(''q1'', PList [PInt 0, PStr ''1'', PInt 2])] ''en''
             = Inr (Some False, PNone, msgs, 1)"
    by simp
  from 1 2 3 show ?thesis by (intro conjI)
qed

subsection \<open>The limit plays no part in checking and grading\<close>

lemma get_choice_with_index_cong:
  "choices p1 = choices p2 \<Longrightarrow> get_choice_with_index p1 i = get_choice_with_index p2 i"
  by (simp add: get_choice_with_index_def)

lemma entries_consistent_cong:
  "choices p1 = choices p2 \<Longrightarrow> entries_consistent p1 entries = entries_consistent p2 entries"
  by (induction entries)
     (simp_all add: get_choice_with_index_cong [of p1 p2] cong: sum.case_cong option.case_cong)

lemma gettext_cong:
  "translations' p1 = translations' p2 \<Longrightarrow> gettext p1 language msg = gettext p2 language msg"
  by (simp add: gettext_def)

lemma collect_feedback_cong:
  "choices p1 = choices p2 \<Longrightarrow> translations' p1 = translations' p2 \<Longrightarrow>
     collect_feedback p1 language entries msgs = collect_feedback p2 language entries msgs"
  by (induction entries arbitrary: msgs)
     (simp_all add: get_choice_with_index_cong [of p1 p2] gettext_cong [of p1 p2]
        cong: sum.case_cong option.case_cong if_cong)

lemma compose_result_cong:
  assumes "translations' p1 = translations' p2" "multiple p1 = multiple p2"
    "centralize p1 = centralize p2" "error_message p1 = error_message p2"
    "success_message p1 = success_message p2"
  shows "compose_result p1 language ok n msgs = compose_result p2 language ok n msgs"
  using assms by (simp add: compose_result_def gettext_cong [of p1 p2])

lemma input_is_consistent_cong:
  assumes "id' p1 = id' p2" "multiple p1 = multiple p2" "choices p1 = choices p2"
  shows "MultipleChoiceProblem_input_is_consistent p1 task_input
           = MultipleChoiceProblem_input_is_consistent p2 task_input"
  using assms
  by (simp add: MultipleChoiceProblem_input_is_consistent_def get_id_def
      entries_consistent_cong [of p1 p2] get_choice_with_index_cong [of p1 p2]
      cong: option.case_cong pyval.case_cong sum.case_cong if_cong)

lemma check_answer_cong:
  assumes "id' p1 = id' p2" "multiple p1 = multiple p2" "choices p1 = choices p2"
    "translations' p1 = translations' p2" "centralize p1 = centralize p2"
    "error_message p1 = error_message p2" "success_message p1 = success_message p2"
  shows "MultipleChoiceProblem_check_answer p1 task_input language
           = MultipleChoiceProblem_check_answer p2 task_input language"
  using assms
  by (simp add: MultipleChoiceProblem_check_answer_def get_id_def
      collect_feedback_cong [of p1 p2] get_choice_with_index_cong [of p1 p2]
      compose_result_cong [of p1 p2] gettext_cong [of p1 p2]
      cong: option.case_cong sum.case_cong prod.case_cong if_cong)

text \<open>
  Claim C9. Two problems built from descriptors that differ in the limit only give the same
  results of \<^verbatim>\<open>input_is_consistent\<close> and of \<^verbatim>\<open>check_answer\<close> on every submission; and a
  multi-select submission that lists more choice indices than the limit is accepted and
  graded.
\<close>

theorem mcq_limit_irrelevant:
  assumes "MultipleChoiceProblem_init idc tsk problemid content1 translations = Inr p1"
    and "MultipleChoiceProblem_init idc tsk problemid content2 translations = Inr p2"
    and "\<forall>k. k \<noteq> ''limit'' \<longrightarrow> map_of content1 k = map_of content2 k"
  shows "MultipleChoiceProblem_input_is_consistent p1 task_input
           = MultipleChoiceProblem_input_is_consistent p2 task_input
    \<and> MultipleChoiceProblem_check_answer p1 task_input language
           = MultipleChoiceProblem_check_answer p2 task_input language
    \<and> (\<forall>entries. truthy (multiple p1) \<longrightarrow> map_of task_input (get_id p1) = Some (PList entries) \<longrightarrow>
          (\<forall>e\<in>set entries. is_choice_index p1 e) \<longrightarrow> int_value (limit p1) < int (length entries) \<longrightarrow>
          MultipleChoiceProblem_input_is_consistent p1 task_input = Inr True
          \<and> (\<exists>r. MultipleChoiceProblem_check_answer p1 task_input language = Inr r))"
proof -
  from assms(1) obtain cs1 good1 bad1 where
    a: "map_of content1 ''choices'' = Some (PList cs1)"
       "enumerate_choices problemid 0 cs1 [] [] = Inr (good1, bad1)"
       "id' p1 = problemid" "translations' p1 = translations"
       "multiple p1 = dict_get content1 ''multiple'' (PBool False)"
       "centralize p1 = dict_get content1 ''centralize'' (PBool False)"
       "error_message p1 = dict_get content1 ''error_message'' PNone"
       "success_message p1 = dict_get content1 ''success_message'' PNone"
       "choices p1 = good1 @ bad1"
    by (rule MultipleChoiceProblem_init_Inr)
  from assms(2) obtain cs2 good2 bad2 where
    b: "map_of content2 ''choices'' = Some (PList cs2)"
       "enumerate_choices problemid 0 cs2 [] [] = Inr (good2, bad2)"
       "id' p2 = problemid" "translations' p2 = translations"
       "multiple p2 = dict_get content2 ''multiple'' (PBool False)"
       "centralize p2 = dict_get content2 ''centralize'' (PBool False)"
       "error_message p2 = dict_get content2 ''error_message'' PNone"
       "success_message p2 = dict_get content2 ''success_message'' PNone"
       "choices p2 = good2 @ bad2"
    by (rule MultipleChoiceProblem_init_Inr)
  from assms(3) have same:
    "map_of content1 ''choices'' = map_of content2 ''choices''"
    "map_of content1 ''multiple'' = map_of content2 ''multiple''"
    "map_of content1 ''centralize'' = map_of content2 ''centralize''"
    "map_of content1 ''error_message'' = map_of content2 ''error_message''"
    "map_of content1 ''success_message'' = map_of content2 ''success_message''"
    by simp_all
  from a(1) b(1) same(1) have "cs1 = cs2" by simp
  with a(2) b(2) a(9) b(9) have ch: "choices p1 = choices p2" by simp
  have i: "id' p1 = id' p2" and t: "translations' p1 = translations' p2"
    by (simp_all add: a b)
  have m: "multiple p1 = multiple p2" and c: "centralize p1 = centralize p2"
    and e: "error_message p1 = error_message p2" and s: "success_message p1 = success_message p2"
    by (simp_all only: a b dict_get_cong [OF same(2)] dict_get_cong [OF same(3)]
        dict_get_cong [OF same(4)] dict_get_cong [OF same(5)])
  have 1: "MultipleChoiceProblem_input_is_consistent p1 task_input
           = MultipleChoiceProblem_input_is_consistent p2 task_input"
    using i m ch by (rule input_is_consistent_cong)
  have 2: "MultipleChoiceProblem_check_answer p1 task_input language
           = MultipleChoiceProblem_check_answer p2 task_input language"
    using i m ch t c e s by (rule check_answer_cong)
  have 3: "\<forall>entries. truthy (multiple p1) \<longrightarrow> map_of task_input (get_id p1) = Some (PList entries) \<longrightarrow>
          (\<forall>e\<in>set entries. is_choice_index p1 e) \<longrightarrow> int_value (limit p1) < int (length entries) \<longrightarrow>
          MultipleChoiceProblem_input_is_consistent p1 task_input = Inr True
          \<and> (\<exists>r. MultipleChoiceProblem_check_answer p1 task_input language = Inr r)"
  proof (intro allI impI conjI)
    fix entries
    assume h: "truthy (multiple p1)" "map_of task_input (get_id p1) = Some (PList entries)"
      "\<forall>e\<in>set entries. is_choice_index p1 e"
    from h show "MultipleChoiceProblem_input_is_consistent p1 task_input = Inr True"
      by (simp add: MultipleChoiceProblem_input_is_consistent_def entries_consistent_entries)
    from h show "\<exists>r. MultipleChoiceProblem_check_answer p1 task_input language = Inr r"
      by (rule check_answer_entries_returns)
  qed
  from 1 2 3 show ?thesis by (intro conjI)
qed

theorem mcq_limit_irrelevant_witness:
  "MultipleChoiceProblem_init id_checker example_task ''q1'' (spec_content True 2) Map.empty
     = Inr (spec_problem True 2)
   \<and> MultipleChoiceProblem_init id_checker example_task ''q1'' (spec_content True 0) Map.empty
     = Inr (spec_problem True 0)
   \<and> without_limit (spec_content True 2) = without_limit (spec_content True 0)
   \<and> MultipleChoiceProblem_input_is_consistent (spec_problem True 2)
        [(''q1'', PList [PInt 0, PInt 1, PStr ''2''])] = Inr True
   \<and> MultipleChoiceProblem_input_is_consistent (spec_problem True 0)
        [(''q1'', PList [PInt 0, PInt 1, PStr ''2''])] = Inr True
   \<and> MultipleChoiceProblem_check_answer (spec_problem True 2)
        [(''q1'', PList [PInt 0, PInt 1, PStr ''2''])] ''en''
     = MultipleChoiceProblem_check_answer (spec_problem True 0)
        [(''q1'', PList [PInt 0, PInt 1, PStr ''2''])] ''en''
   \<and> (\<exists>r. MultipleChoiceProblem_check_answer (spec_problem True 2)
        [(''q1'', PList [PInt 0, PInt 1, PStr ''2''])] ''en'' = Inr r)"
proof -
  let ?ti = "[(''q1'', PList [PInt 0, PInt 1, PStr ''2''])]"
  have b2: "MultipleChoiceProblem_init id_checker example_task ''q1'' (spec_content True 2) Map.empty
     = Inr (spec_problem True 2)"
    and b0: "MultipleChoiceProblem_init id_checker example_task ''q1'' (spec_content True 0) Map.empty
     = Inr (spec_problem True 0)"
    by (simp_all add: spec_problem_built)
  have d: "\<forall>k. k \<noteq> ''limit'' \<longrightarrow> map_of (spec_content True 2) k = map_of (spec_content True 0) k"
    by (simp add: spec_content_def)
  note t = mcq_limit_irrelevant [OF b2 b0 d, of ?ti "''en''"]
  have h: "truthy (multiple (spec_problem True 2))"
    "map_of ?ti (get_id (spec_problem True 2)) = Some (PList [PInt 0, PInt 1, PStr ''2''])"
    "\<forall>e\<in>set [PInt 0, PInt 1, PStr ''2'']. is_choice_index (spec_problem True 2) e"
    "int_value (limit (spec_problem True 2)) < int (length [PInt 0, PInt 1, PStr ''2''])"
    by (simp_all add: spec_problem_def get_id_def is_choice_index_def str_int_digits)
  from t have c: "MultipleChoiceProblem_input_is_consistent (spec_problem True 2) ?ti
           = MultipleChoiceProblem_input_is_consistent (spec_problem True 0) ?ti"
    and a: "MultipleChoiceProblem_check_answer (spec_problem True 2) ?ti ''en''
           = MultipleChoiceProblem_check_answer (spec_problem True 0) ?ti ''en''"
    by blast+
  from t h have r: "MultipleChoiceProblem_input_is_consistent (spec_problem True 2) ?ti = Inr True"
    "\<exists>r. MultipleChoiceProblem_check_answer (spec_problem True 2) ?ti ''en'' = Inr r"
    by blast+
  have w: "without_limit (spec_content True 2) = without_limit (spec_content True 0)"
    by (simp add: without_limit_def spec_content_def)
  from b2 b0 w c a r show ?thesis by (intro conjI) simp_all
qed

subsection \<open>A submission of the wrong type\<close>

text \<open>
  Claim C3. \<^verbatim>\<open>input_is_consistent\<close> is claimed never to raise. The conversion \<^verbatim>\<open>int(...)\<close> is
  guarded against \<^verbatim>\<open>ValueError\<close> only: on a single-select problem a list or \<^verbatim>\<open>None\<close> under
  the problem's id, and on a multi-select problem a nested list among the entries, raise
  \<^verbatim>\<open>TypeError\<close> out of the method.
\<close>

theorem mcq_input_is_consistent_raises:
  "MultipleChoiceProblem_init id_checker example_task ''q1'' (spec_content False 0) Map.empty
     = Inr (spec_problem False 0)
   \<and> MultipleChoiceProblem_input_is_consistent (spec_problem False 0) [(''q1'', PList [PStr ''0''])]
     = Inl TypeError
   \<and> MultipleChoiceProblem_input_is_consistent (spec_problem False 0) [(''q1'', PNone)]
     = Inl TypeError
   \<and> MultipleChoiceProblem_init id_checker example_task ''q1'' (spec_content True 0) Map.empty
     = Inr (spec_problem True 0)
   \<and> MultipleChoiceProblem_input_is_consistent (spec_problem True 0)
        [(''q1'', PList [PStr ''0'', PList [PStr ''1'']])]
     = Inl TypeError"
  by (simp add: spec_problem_built)
     (simp add: MultipleChoiceProblem_input_is_consistent_def spec_problem_def get_id_def
        get_choice_with_index_def int_of_str_digits)

section \<open>Code problems\<close>

lemma create_boxes_original_content:
  "create_boxes idc new_box self items = Inr p \<Longrightarrow> original_content p = original_content self"
proof (induction items arbitrary: self)
  case Nil
  then show ?case by simp
next
  case (Cons item items)
  obtain boxid box_content where item: "item = (boxid, box_content)" by (cases item)
  from Cons.prems item obtain box where
    "create_boxes idc new_box (self\<lparr>boxes := boxes self @ [box]\<rparr>) items = Inr p"
    by (auto split: if_splits sum.splits)
  from Cons.IH [OF this] show ?case by simp
qed

lemma BasicCodeProblem_init_original_content:
  "BasicCodeProblem_init idc tsk problemid content translations = Inr p \<Longrightarrow> original_content p = content"
  by (auto simp: BasicCodeProblem_init_def BasicProblem_init_def basic_problem.defs
      basic_code_problem.defs split: if_splits)

lemma create_boxes_empty_id:
  "'''' \<in> fst ` set items \<Longrightarrow> \<exists>e. create_boxes idc new_box self items = Inl e"
proof (induction items arbitrary: self)
  case Nil
  then show ?case by simp
next
  case (Cons item items)
  obtain boxid box_content where item: "item = (boxid, box_content)" by (cases item)
  show ?case
  proof (cases "boxid = ''''")
    case True
    with item show ?thesis by simp
  next
    case False
    with Cons.prems item have "'''' \<in> fst ` set items" by auto
    from Cons.IH [OF this] False item show ?thesis
      by (cases "create_box idc new_box self boxid box_content") simp_all
  qed
qed

lemma box_types_None: "box_types t = None \<longleftrightarrow>
    t \<notin> {''input-text'', ''input-decimal'', ''input-integer'', ''multiline'', ''text'', ''file''}"
  by (simp add: box_types_def)

lemma code_inits_built:
  "CodeSingleLineProblem_init id_checker example_new_box example_task ''q1'' [] Map.empty
     = Inr \<lparr> translations' = Map.empty, id' = ''q1'', task = example_task, name = PStr '''',
             header = PStr '''', original_content = [], boxes = [(InputBox, '''')] \<rparr>"
  "CodeFileProblem_init id_checker example_new_box example_task ''q1'' [] Map.empty
     = Inr \<lparr> translations' = Map.empty, id' = ''q1'', task = example_task, name = PStr '''',
             header = PStr '''', original_content = [], boxes = [(FileBox, '''')] \<rparr>"
  "CodeProblem_init id_checker example_new_box example_task ''q1'' two_boxes_content Map.empty
     = Inr \<lparr> translations' = Map.empty, id' = ''q1'', task = example_task, name = PStr '''',
             header = PStr '''', original_content = two_boxes_content,
             boxes = [(TextBox, ''b1''), (FileBox, ''b2'')] \<rparr>"
  by (simp_all add: CodeSingleLineProblem_init_def CodeFileProblem_init_def CodeProblem_init_def
      BasicCodeProblem_init_def BasicProblem_init_def id_checker_q1 example_task_def
      create_box_def box_types_def example_new_box_def dict_has_def dict_get_def
      two_boxes_content_def id_checker_def is_digit_def
      basic_problem.defs basic_code_problem.defs)

lemma create_box_refused:
  assumes "(\<not> idc boxid \<and> boxid \<noteq> '''') \<or>
           (\<exists>d t. box_content = PDict d \<and> map_of d ''type'' = Some (PStr t) \<and> box_types t = None)"
  shows "\<exists>msg. create_box idc new_box self boxid box_content = Inl (Exception (msg @ boxid))"
proof (cases "\<not> idc boxid \<and> boxid \<noteq> ''''")
  case True
  then have "create_box idc new_box self boxid box_content = Inl (Exception (''Invalid box _id '' @ boxid))"
    by (simp add: create_box_def)
  then show ?thesis by blast
next
  case False
  with assms obtain d t where "box_content = PDict d" "map_of d ''type'' = Some (PStr t)"
    "box_types t = None"
    by blast
  with False have "create_box idc new_box self boxid box_content
      = Inl (Exception ((''Unknown box type '' @ t @ ''for box _id '') @ boxid))"
    by (auto simp: create_box_def dict_has_def)
  then show ?thesis by blast
qed

lemma create_boxes_refused:
  assumes "(boxid, box_content) \<in> set items"
    and "(\<not> idc boxid \<and> boxid \<noteq> '''') \<or>
         (\<exists>d t. box_content = PDict d \<and> map_of d ''type'' = Some (PStr t) \<and> box_types t = None)"
  shows "\<exists>e. create_boxes idc new_box self items = Inl e"
  using assms(1)
proof (induction items arbitrary: self)
  case Nil
  then show ?case by simp
next
  case (Cons item items)
  obtain i c where item: "item = (i, c)" by (cases item)
  show ?case
  proof (cases "i = ''''")
    case True
    with item show ?thesis by simp
  next
    case False
    show ?thesis
    proof (cases "create_box idc new_box self i c")
      case (Inl e)
      with False item show ?thesis by simp
    next
      case (Inr box)
      with create_box_refused [where idc = idc and boxid = boxid and box_content = box_content
          and new_box = new_box and self = self, OF assms(2)] have "(i, c) \<noteq> (boxid, box_content)"
        by auto
      with Cons.prems item have "(boxid, box_content) \<in> set items" by auto
      from Cons.IH [OF this] Inr False item show ?thesis by simp
    qed
  qed
qed

text \<open>
  Claim C7. A \<^verbatim>\<open>CodeProblem\<close> descriptor whose \<^verbatim>\<open>boxes\<close> mapping has the empty string among
  its box ids is refused by the constructor. \<^verbatim>\<open>_create_box\<close> refuses a box id that fails the
  identifier check and is not empty, and a box type that is a string outside the table of
  box types, in both cases with an exception whose message names the box id; and the
  constructor fails on a \<^verbatim>\<open>boxes\<close> mapping that holds such a box.
\<close>

theorem code_problem_box_errors:
  "(\<forall>items. map_of content ''boxes'' = Some (PDict items) \<longrightarrow> '''' \<in> fst ` set items \<longrightarrow>
      (\<exists>e. CodeProblem_init idc new_box tsk problemid content translations = Inl e))
   \<and> (\<not> idc boxid \<and> boxid \<noteq> '''' \<longrightarrow>
        create_box idc new_box self boxid box_content = Inl (Exception (''Invalid box _id '' @ boxid)))
   \<and> (\<forall>d t. map_of d ''type'' = Some (PStr t) \<longrightarrow>
        t \<notin> {''input-text'', ''input-decimal'', ''input-integer'', ''multiline'', ''text'', ''file''} \<longrightarrow>
        (\<exists>msg. create_box idc new_box self boxid (PDict d) = Inl (Exception (msg @ boxid)))
        \<and> (idc boxid \<or> boxid = '''' \<longrightarrow>
             create_box idc new_box self boxid (PDict d)
               = Inl (Exception (''Unknown box type '' @ t @ ''for box _id '' @ boxid))))
   \<and> (\<forall>items d t. map_of content ''boxes'' = Some (PDict items) \<longrightarrow>
        (boxid, box_content) \<in> set items \<longrightarrow>
        (\<not> idc boxid \<and> boxid \<noteq> '''') \<or>
        (box_content = PDict d \<and> map_of d ''type'' = Some (PStr t) \<and>
         t \<notin> {''input-text'', ''input-decimal'', ''input-integer'', ''multiline'', ''text'', ''file''}) \<longrightarrow>
        (\<exists>e. CodeProblem_init idc new_box tsk problemid content translations = Inl e))"
proof (intro conjI allI impI)
  fix items assume b: "map_of content ''boxes'' = Some (PDict items)" and e: "'''' \<in> fst ` set items"
  show "\<exists>e. CodeProblem_init idc new_box tsk problemid content translations = Inl e"
  proof (cases "BasicCodeProblem_init idc tsk problemid content translations :: exn + 'a basic_code_problem")
    case (Inl err)
    then show ?thesis by (simp add: CodeProblem_init_def)
  next
    case (Inr p)
    with b create_boxes_empty_id [OF e, of idc new_box "p\<lparr>boxes := []\<rparr>"] show ?thesis
      by (auto simp: CodeProblem_init_def dict_has_def dict_get_def)
  qed
next
  assume "\<not> idc boxid \<and> boxid \<noteq> ''''"
  then show "create_box idc new_box self boxid box_content = Inl (Exception (''Invalid box _id '' @ boxid))"
    by (simp add: create_box_def)
next
  fix d t
  assume "map_of d ''type'' = Some (PStr t)"
    "t \<notin> {''input-text'', ''input-decimal'', ''input-integer'', ''multiline'', ''text'', ''file''}"
  then have "\<exists>d' t'. PDict d = PDict d' \<and> map_of d' ''type'' = Some (PStr t') \<and> box_types t' = None"
    by (simp add: box_types_None)
  then show "\<exists>msg. create_box idc new_box self boxid (PDict d) = Inl (Exception (msg @ boxid))"
    by (intro create_box_refused disjI2)
next
  fix d t
  assume "map_of d ''type'' = Some (PStr t)"
    "t \<notin> {''input-text'', ''input-decimal'', ''input-integer'', ''multiline'', ''text'', ''file''}"
    "idc boxid \<or> boxid = ''''"
  then show "create_box idc new_box self boxid (PDict d)
          = Inl (Exception (''Unknown box type '' @ t @ ''for box _id '' @ boxid))"
    using box_types_None [of t] by (auto simp: create_box_def dict_has_def)
next
  fix items d t
  assume b: "map_of content ''boxes'' = Some (PDict items)"
    and m: "(boxid, box_content) \<in> set items"
    and r: "(\<not> idc boxid \<and> boxid \<noteq> '''') \<or>
        (box_content = PDict d \<and> map_of d ''type'' = Some (PStr t) \<and>
         t \<notin> {''input-text'', ''input-decimal'', ''input-integer'', ''multiline'', ''text'', ''file''})"
  from r have r': "(\<not> idc boxid \<and> boxid \<noteq> '''') \<or>
         (\<exists>d t. box_content = PDict d \<and> map_of d ''type'' = Some (PStr t) \<and> box_types t = None)"
    by (auto simp: box_types_None)
  show "\<exists>e. CodeProblem_init idc new_box tsk problemid content translations = Inl e"
  proof (cases "BasicCodeProblem_init idc tsk problemid content translations :: exn + 'a basic_code_problem")
    case (Inl err)
    then show ?thesis by (simp add: CodeProblem_init_def)
  next
    case (Inr p)
    with b create_boxes_refused [where idc = idc and boxid = boxid and box_content = box_content
        and items = items and new_box = new_box and self = "p\<lparr>boxes := []\<rparr>", OF m r']
    show ?thesis
      by (auto simp: CodeProblem_init_def dict_has_def dict_get_def)
  qed
qed

theorem code_problem_box_errors_witness:
  "map_of boxes_content ''boxes''
     = Some (PDict [(''b1'', PDict [(''type'', PStr ''text'')]), ('''', PDict [(''type'', PStr ''multiline'')])])
   \<and> (\<exists>e. CodeProblem_init id_checker example_new_box example_task ''q1'' boxes_content Map.empty = Inl e)
   \<and> \<not> id_checker ''bad id''
   \<and> create_box id_checker example_new_box
        \<lparr> translations' = Map.empty, id' = ''q1'', task = example_task, name = PStr '''',
          header = PStr '''', original_content = [], boxes = [] \<rparr>
        ''bad id'' (PDict [(''type'', PStr ''text'')])
       = Inl (Exception ''Invalid box _id bad id'')
   \<and> id_checker ''b2''
   \<and> create_box id_checker example_new_box
        \<lparr> translations' = Map.empty, id' = ''q1'', task = example_task, name = PStr '''',
          header = PStr '''', original_content = [], boxes = [] \<rparr>
        ''b2'' (PDict [(''type'', PStr ''slider'')])
       = Inl (Exception ''Unknown box type sliderfor box _id b2'')
   \<and> (\<exists>e. CodeProblem_init id_checker example_new_box example_task ''q1'' unknown_type_content Map.empty
          = Inl e)"
proof -
  let ?self = "\<lparr> translations' = Map.empty, id' = ''q1'', task = example_task, name = PStr '''',
          header = PStr '''', original_content = [], boxes = [] :: (box_class \<times> string) list \<rparr>"
  have b: "map_of boxes_content ''boxes''
     = Some (PDict [(''b1'', PDict [(''type'', PStr ''text'')]), ('''', PDict [(''type'', PStr ''multiline'')])])"
    by (simp add: boxes_content_def)
  have u: "map_of unknown_type_content ''boxes''
     = Some (PDict [(''b1'', PDict [(''type'', PStr ''text'')]), (''b2'', PDict [(''type'', PStr ''slider'')])])"
    by (simp add: unknown_type_content_def)
  have i: "\<not> id_checker ''bad id''" "id_checker ''b2''"
    by (simp_all add: id_checker_def is_digit_def)
  from b i have 1: "\<exists>e. CodeProblem_init id_checker example_new_box example_task ''q1'' boxes_content Map.empty = Inl e"
    and 2: "create_box id_checker example_new_box ?self ''bad id'' (PDict [(''type'', PStr ''text'')])
       = Inl (Exception ''Invalid box _id bad id'')"
    using code_problem_box_errors [of boxes_content id_checker example_new_box example_task "''q1''"
        Map.empty "''bad id''" ?self "PDict [(''type'', PStr ''text'')]"]
    by simp_all
  from i have 3: "create_box id_checker example_new_box ?self ''b2'' (PDict [(''type'', PStr ''slider'')])
       = Inl (Exception ''Unknown box type sliderfor box _id b2'')"
    using code_problem_box_errors [of boxes_content id_checker example_new_box example_task "''q1''"
        Map.empty "''b2''" ?self "PDict [(''type'', PStr ''slider'')]"]
    by simp
  from u have 4: "\<exists>e. CodeProblem_init id_checker example_new_box example_task ''q1'' unknown_type_content Map.empty
          = Inl e"
    using code_problem_box_errors [of unknown_type_content id_checker example_new_box example_task "''q1''"
        Map.empty "''b2''" ?self "PDict [(''type'', PStr ''slider'')]"]
    by simp
  from b i 1 2 3 4 show ?thesis by (intro conjI)
qed

section \<open>The original content\<close>

text \<open>
  Claim C8. Whatever the variant, a problem that its constructor returns gives back, by
  \<^verbatim>\<open>get_original_content\<close>, the descriptor it was built from.
\<close>

theorem get_original_content_roundtrip:
  "(\<forall>p. MatchProblem_init idc repr tsk problemid content translations = Inr p \<longrightarrow>
        get_original_content p = content)
   \<and> (\<forall>p. MultipleChoiceProblem_init idc tsk problemid content translations = Inr p \<longrightarrow>
        get_original_content p = content)
   \<and> (\<forall>p. CodeSingleLineProblem_init idc new_box tsk problemid content translations = Inr p \<longrightarrow>
        get_original_content p = content)
   \<and> (\<forall>p. CodeFileProblem_init idc new_box tsk problemid content translations = Inr p \<longrightarrow>
        get_original_content p = content)
   \<and> (\<forall>p. CodeProblem_init idc new_box tsk problemid content translations = Inr p \<longrightarrow>
        get_original_content p = content)"
proof (intro conjI allI impI)
  fix p assume "MatchProblem_init idc repr tsk problemid content translations = Inr p"
  then show "get_original_content p = content"
    by (auto simp: MatchProblem_init_def BasicProblem_init_def get_original_content_def
        basic_problem.defs match_problem.defs split: if_splits)
next
  fix p assume "MultipleChoiceProblem_init idc tsk problemid content translations = Inr p"
  then have "original_content p = content" by (rule MultipleChoiceProblem_init_Inr)
  then show "get_original_content p = content" by (simp add: get_original_content_def)
next
  fix p assume "CodeSingleLineProblem_init idc new_box tsk problemid content translations = Inr p"
  then show "get_original_content p = content"
    by (auto simp: CodeSingleLineProblem_init_def get_original_content_def
        dest: BasicCodeProblem_init_original_content split: sum.splits)
next
  fix p assume "CodeFileProblem_init idc new_box tsk problemid content translations = Inr p"
  then show "get_original_content p = content"
    by (auto simp: CodeFileProblem_init_def get_original_content_def
        dest: BasicCodeProblem_init_original_content split: sum.splits)
next
  fix p assume "CodeProblem_init idc new_box tsk problemid content translations = Inr p"
  then show "get_original_content p = content"
    by (auto simp: CodeProblem_init_def get_original_content_def
        dest: BasicCodeProblem_init_original_content dest!: create_boxes_original_content
        split: sum.splits if_splits pyval.splits)
qed

theorem get_original_content_roundtrip_witness:
  "(\<exists>p. MatchProblem_init id_checker (\<lambda>v. []) example_task ''q1'' match_content Map.empty = Inr p
        \<and> get_original_content p = match_content)
   \<and> (\<exists>p. MultipleChoiceProblem_init id_checker example_task ''q1'' (spec_content True 0) Map.empty = Inr p
        \<and> get_original_content p = spec_content True 0)
   \<and> (\<exists>p. CodeSingleLineProblem_init id_checker example_new_box example_task ''q1'' [] Map.empty = Inr p
        \<and> get_original_content p = [])
   \<and> (\<exists>p. CodeFileProblem_init id_checker example_new_box example_task ''q1'' [] Map.empty = Inr p
        \<and> get_original_content p = [])
   \<and> (\<exists>p. CodeProblem_init id_checker example_new_box example_task ''q1'' two_boxes_content Map.empty = Inr p
        \<and> get_original_content p = two_boxes_content)"
  using
    get_original_content_roundtrip [of id_checker "\<lambda>v. []" example_task "''q1''" match_content Map.empty
      example_new_box]
    get_original_content_roundtrip [of id_checker "\<lambda>v. []" example_task "''q1''" "spec_content True 0" Map.empty
      example_new_box]
    get_original_content_roundtrip [of id_checker "\<lambda>v. []" example_task "''q1''" "[]" Map.empty
      example_new_box]
    get_original_content_roundtrip [of id_checker "\<lambda>v. []" example_task "''q1''" two_boxes_content Map.empty
      example_new_box]
  by (simp add: match_example_built spec_problem_built code_inits_built)

end
